theory Spec2Isabelle
  imports Complex_Main "HOL-Library.AList" "HOL-Library.Char_ord" "HOL-Library.List_Lexorder"
begin

section \<open>Python values and exceptions\<close>

text \<open>
  The rendering entry module works on dynamically typed data. The values that reach it are
  modelled by \<open>pyval\<close>: \<open>None\<close>, integers, strings (a \<open>uuid.UUID\<close> is represented by
  its string form), lists, dictionaries with string keys (an association list in insertion
  order) and instances of the two model classes the module tests with \<open>isinstance\<close>, given by
  their class and their attributes. Booleans and floats inside field data are not represented.
\<close>

datatype pycls = ProjectMemberInfo | PentestUser

datatype pyval =
    VNone
  | VInt int
  | VStr string
  | VList "pyval list"
  | VDict "(string \<times> pyval) list"
  | VObj pycls "(string \<times> pyval) list"

text \<open>Every \<open>raise\<close> of the module and of its collaborators is a value of \<open>exn\<close>.
  \<open>CancelledError\<close> and \<open>KeyboardInterrupt\<close> derive from \<open>BaseException\<close> only; all the
  others are subclasses of \<open>Exception\<close>.\<close>

datatype exn =
    TypeError | KeyError | AttributeError | IndexError | ValueError | StopIteration
  | DoesNotExist | ValidationError | TimeoutError | CancelledError | KeyboardInterrupt
  | OtherError string

fun is_Exception :: "exn \<Rightarrow> bool" where
  "is_Exception CancelledError = False"
| "is_Exception KeyboardInterrupt = False"
| "is_Exception _ = True"

definition bind_exn :: "exn + 'a \<Rightarrow> ('a \<Rightarrow> exn + 'b) \<Rightarrow> exn + 'b" where
  "bind_exn m f = (case m of Inl e \<Rightarrow> Inl e | Inr x \<Rightarrow> f x)"

text \<open>Truthiness (\<open>bool(v)\<close>, \<open>if not u\<close>, \<open>filter(None, ...)\<close>).\<close>

fun py_truthy :: "pyval \<Rightarrow> bool" where
  "py_truthy VNone = False"
| "py_truthy (VInt i) = (i \<noteq> 0)"
| "py_truthy (VStr s) = (s \<noteq> [])"
| "py_truthy (VList xs) = (xs \<noteq> [])"
| "py_truthy (VDict d) = (d \<noteq> [])"
| "py_truthy (VObj c a) = True"

text \<open>Iteration (\<open>for e in value\<close>, \<open>filter(None, value)\<close>): a list yields its elements, a
  string its characters, a dictionary its keys; \<open>None\<close>, an integer and a model instance
  raise \<open>TypeError\<close>.\<close>

fun py_iter :: "pyval \<Rightarrow> exn + pyval list" where
  "py_iter (VList xs) = Inr xs"
| "py_iter (VStr s) = Inr (map (\<lambda>c. VStr [c]) s)"
| "py_iter (VDict d) = Inr (map (\<lambda>kv. VStr (fst kv)) d)"
| "py_iter _ = Inl TypeError"

text \<open>Dictionaries: \<open>d.get(k)\<close> is \<open>map_of d k\<close>, \<open>d[k] = v\<close> is \<open>AList.update k v d\<close> (an
  existing key keeps its place, a new one goes last), and \<open>a | b\<close> is \<open>py_dict_or\<close>, defined
  on two dictionaries only.\<close>

definition dict_or :: "('k \<times> 'v) list \<Rightarrow> ('k \<times> 'v) list \<Rightarrow> ('k \<times> 'v) list" where
  "dict_or a b = fold (\<lambda>kv d. AList.update (fst kv) (snd kv) d) b a"

fun py_dict_or :: "pyval \<Rightarrow> pyval \<Rightarrow> exn + (string \<times> pyval) list" where
  "py_dict_or (VDict a) (VDict b) = Inr (dict_or a b)"
| "py_dict_or _ _ = Inl TypeError"

text \<open>Subscription \<open>v[k]\<close> with a string key.\<close>

fun py_getitem :: "pyval \<Rightarrow> string \<Rightarrow> exn + pyval" where
  "py_getitem (VDict d) k = (case map_of d k of None \<Rightarrow> Inl KeyError | Some v \<Rightarrow> Inr v)"
| "py_getitem _ k = Inl TypeError"

text \<open>Decimal rendering of integers, for \<open>str(i)\<close> and f-strings.\<close>

fun string_of_nat :: "nat \<Rightarrow> string" where
  "string_of_nat n =
     (if n < 10 then [char_of (48 + n)]
      else string_of_nat (n div 10) @ [char_of (48 + n mod 10)])"

declare string_of_nat.simps [simp del]

definition string_of_int :: "int \<Rightarrow> string" where
  "string_of_int i = (if i < 0 then CHR ''-'' # string_of_nat (nat (- i)) else string_of_nat (nat i))"

section \<open>Field definitions\<close>

text \<open>\<open>FieldDataType\<close> and the field classes are declared outside this module. A definition is
  a tagged variant; an object carries its child fields with their ids, a list its item
  definition, an enum its choices. \<open>MarkdownField\<close> and \<open>OtherField\<close> (string, number, boolean,
  date, combobox) are the kinds that \<open>format_template_field\<close> passes through.\<close>

datatype EnumChoice = EnumChoice (choice_value: string) (choice_label: string)

datatype fielddef =
    EnumField "EnumChoice list"
  | CvssField
  | CweField
  | UserField
  | ListField fielddef
  | ObjectField "(string \<times> fielddef) list"
  | MarkdownField
  | OtherField

datatype HandleUndefinedFieldsOptions = FILL_NONE | FILL_DEFAULT | FILL_DEMO_DATA

section \<open>Collaborators\<close>

text \<open>
  The functions and tables the module imports from the rest of the application are parameters
  of the model:
  \<^item> \<open>ensure_defined_structure\<close> (customfields.utils), with its optional \<open>handle_undefined\<close>;
  \<^item> the CVSS engine: \<open>calculate_metrics\<close>, \<open>score_str\<close> for \<open>str(round(score, 2))\<close>,
    \<open>level_from_score\<close> (with its \<open>.value\<close>) and \<open>level_number_from_score\<close>;
  \<^item> \<open>cwe_definitions\<close>, the table \<open>CweField.cwe_definitions()\<close>;
  \<^item> \<open>user_store_get\<close>, the query \<open>PentestUser.objects.get(id=value)\<close>;
  \<^item> \<open>sort_findings\<close> (customfields.sort), already applied to the project type;
  \<^item> \<open>set_order\<close>, the order in which a Python \<open>set\<close> built from the given elements is
    iterated, which the language leaves open;
  \<^item> \<open>str_other\<close>, \<open>str(v)\<close> for containers and model instances.
\<close>

record externals =
  ensure_defined_structure ::
    "HandleUndefinedFieldsOptions option \<Rightarrow> pyval \<Rightarrow> (string \<times> fielddef) list \<Rightarrow> exn + pyval"
  calculate_metrics :: "pyval \<Rightarrow> exn + pyval"
  score_str :: "pyval \<Rightarrow> exn + pyval"
  level_from_score :: "pyval \<Rightarrow> exn + pyval"
  level_number_from_score :: "pyval \<Rightarrow> exn + pyval"
  cwe_definitions :: "pyval list"
  user_store_get :: "pyval \<Rightarrow> exn + pyval"
  sort_findings :: "pyval list \<Rightarrow> bool \<Rightarrow> exn + pyval list"
  set_order :: "pyval list \<Rightarrow> pyval list"
  str_other :: "pyval \<Rightarrow> string"

definition py_str :: "externals \<Rightarrow> pyval \<Rightarrow> string" where
  "py_str P v = (case v of VNone \<Rightarrow> ''None'' | VInt i \<Rightarrow> string_of_int i | VStr s \<Rightarrow> s
                 | _ \<Rightarrow> str_other P v)"

section \<open>Formatting user references\<close>

text \<open>Modelled from the spec: \<open>get_key_or_attr\<close> (utils.utils) is not part of this module; it
  reads key \<open>k\<close> of a mapping or attribute \<open>k\<close> of any other object, with a default.\<close>

fun get_key_or_attr :: "pyval \<Rightarrow> string \<Rightarrow> pyval \<Rightarrow> pyval" where
  "get_key_or_attr (VDict d) k dflt = (case map_of d k of None \<Rightarrow> dflt | Some v \<Rightarrow> v)"
| "get_key_or_attr (VObj c a) k dflt = (case map_of a k of None \<Rightarrow> dflt | Some v \<Rightarrow> v)"
| "get_key_or_attr _ k dflt = dflt"

text \<open>Modelled from the spec: \<open>copy_keys\<close> (utils.utils) is not part of this module; it
  projects a record to the given keys ("a fixed contact-field subset"), keeping those present.\<close>

fun copy_keys :: "pyval \<Rightarrow> string list \<Rightarrow> (string \<times> pyval) list" where
  "copy_keys (VDict d) ks = map (\<lambda>k. (k, the (map_of d k))) (filter (\<lambda>k. map_of d k \<noteq> None) ks)"
| "copy_keys (VObj c a) ks = map (\<lambda>k. (k, the (map_of a k))) (filter (\<lambda>k. map_of a k \<noteq> None) ks)"
| "copy_keys _ ks = []"

definition contact_keys :: "string list" where
  "contact_keys = [''id'', ''name'', ''title_before'', ''first_name'', ''middle_name'',
     ''last_name'', ''title_after'', ''email'', ''phone'', ''mobile'']"

text \<open>The sort key of a role: \<open>{'lead': 0, 'pentester': 1, 'reviewer': 2}.get(r, 10)\<close>.\<close>

definition role_priority :: "pyval \<Rightarrow> nat" where
  "role_priority r =
     (if r = VStr ''lead'' then 0 else if r = VStr ''pentester'' then 1
      else if r = VStr ''reviewer'' then 2 else 10)"

text \<open>\<open>set(...)\<close> hashes its elements: lists and dictionaries raise \<open>TypeError\<close>. Hashing a
  model instance is not modelled (no caller puts one among roles) and is an error here too.\<close>

fun py_hashable :: "pyval \<Rightarrow> bool" where
  "py_hashable VNone = True"
| "py_hashable (VInt i) = True"
| "py_hashable (VStr s) = True"
| "py_hashable _ = False"

text \<open>\<open>sorted(set(filter(None, roles)), key=...)\<close>: \<open>sorted\<close> is stable, as \<open>sort_key\<close> is.\<close>

definition sorted_roles :: "externals \<Rightarrow> pyval \<Rightarrow> exn + pyval list" where
  "sorted_roles P roles =
     bind_exn (py_iter roles) (\<lambda>rs.
       let truthy = filter py_truthy rs in
       if list_all py_hashable truthy
       then Inr (sort_key role_priority (set_order P truthy))
       else Inl TypeError)"

text \<open>The local function \<open>format_user\<close>; \<open>u.user\<close> raises \<open>AttributeError\<close> on a member
  record without that attribute.\<close>

definition format_user :: "externals \<Rightarrow> pyval \<Rightarrow> exn + pyval" where
  "format_user P u =
     (if \<not> py_truthy u then Inr VNone
      else
        bind_exn
          (case u of
             VObj ProjectMemberInfo a \<Rightarrow>
               (case map_of a ''user'' of None \<Rightarrow> Inl AttributeError | Some usr \<Rightarrow> Inr usr)
           | _ \<Rightarrow> Inr u)
          (\<lambda>usr.
            bind_exn (sorted_roles P (get_key_or_attr u ''roles'' (VList []))) (\<lambda>rs.
              Inr (VDict (dict_or (copy_keys usr contact_keys) [(''roles'', VList rs)])))))"

text \<open>\<open>next(filter(lambda i: str(get_key_or_attr(i, 'id')) == str(value), members or []), None)\<close>\<close>

definition find_member :: "externals \<Rightarrow> pyval \<Rightarrow> pyval list \<Rightarrow> pyval option" where
  "find_member P v members =
     List.find (\<lambda>i. py_str P (get_key_or_attr i ''id'' VNone) = py_str P v) members"

text \<open>\<open>members\<close> is the candidate list (\<open>None\<close> is the empty list).\<close>

definition format_template_field_user :: "externals \<Rightarrow> pyval \<Rightarrow> pyval list \<Rightarrow> exn + pyval" where
  "format_template_field_user P v members =
     (case v of
        VNone \<Rightarrow> format_user P v
      | VDict d \<Rightarrow> format_user P v
      | VObj c a \<Rightarrow> format_user P v
      | VStr s \<Rightarrow>
          (case find_member P v members of
             Some u \<Rightarrow>
               (if py_truthy u then format_user P u
                else
                  (case user_store_get P v of
                     Inr usr \<Rightarrow>
                       format_user P (VObj ProjectMemberInfo [(''user'', usr), (''roles'', VList [])])
                   | Inl e \<Rightarrow> (if e = DoesNotExist \<or> e = ValidationError then Inr VNone else Inl e)))
           | None \<Rightarrow>
               (case user_store_get P v of
                  Inr usr \<Rightarrow>
                    format_user P (VObj ProjectMemberInfo [(''user'', usr), (''roles'', VList [])])
                | Inl e \<Rightarrow> (if e = DoesNotExist \<or> e = ValidationError then Inr VNone else Inl e)))
      | _ \<Rightarrow> Inr VNone)"

section \<open>Formatting field values\<close>

text \<open>\<open>next(filter(lambda c: c.value == value, definition.choices), EnumChoice(value='', label=''))\<close>,
  then \<open>dataclasses.asdict\<close>.\<close>

definition format_enum :: "EnumChoice list \<Rightarrow> pyval \<Rightarrow> pyval" where
  "format_enum choices v =
     (let c = (case List.find (\<lambda>c. VStr (choice_value c) = v) choices of
                 None \<Rightarrow> EnumChoice [] [] | Some c \<Rightarrow> c)
      in VDict [(''value'', VStr (choice_value c)), (''label'', VStr (choice_label c))])"

text \<open>\<open>next(filter(lambda c: value == f"CWE-{c['id']}", CweField.cwe_definitions()), {})\<close>: the
  table is scanned in order; an entry that cannot be subscripted by \<open>'id'\<close> raises.\<close>

fun find_cwe :: "externals \<Rightarrow> pyval \<Rightarrow> pyval list \<Rightarrow> exn + pyval" where
  "find_cwe P v [] = Inr (VDict [])"
| "find_cwe P v (c # cs) =
     (case py_getitem c ''id'' of
        Inl e \<Rightarrow> Inl e
      | Inr i \<Rightarrow> (if v = VStr (''CWE-'' @ py_str P i) then Inr c else find_cwe P v cs))"

definition format_cwe :: "externals \<Rightarrow> pyval \<Rightarrow> exn + pyval" where
  "format_cwe P v =
     bind_exn (find_cwe P v (cwe_definitions P)) (\<lambda>cwe_definition.
       bind_exn
         (py_dict_or
            (VDict [(''id'', VNone), (''name'', VNone), (''description'', VNone), (''value'', v)])
            cwe_definition)
         (\<lambda>d. Inr (VDict d)))"

definition format_cvss :: "externals \<Rightarrow> pyval \<Rightarrow> exn + pyval" where
  "format_cvss P v =
     bind_exn (calculate_metrics P v) (\<lambda>score_metrics.
     bind_exn (py_getitem score_metrics ''final'') (\<lambda>final.
     bind_exn (py_getitem final ''score'') (\<lambda>score.
     bind_exn (score_str P score) (\<lambda>s.
     bind_exn (level_from_score P score) (\<lambda>level.
     bind_exn (level_number_from_score P score) (\<lambda>level_number.
     bind_exn
       (py_dict_or score_metrics
          (VDict [(''vector'', v), (''score'', s), (''level'', level),
                  (''level_number'', level_number)]))
       (\<lambda>d. Inr (VDict d))))))))"

text \<open>
  \<open>format_template_field\<close> and \<open>format_template_field_object\<close> call each other. The list
  comprehension of the \<open>LIST\<close> branch is \<open>format_items\<close>, the loop over \<open>definition.fields\<close> is
  \<open>format_fields\<close>. \<open>require_id\<close> is \<open>None\<close> for \<open>require_id=False\<close> and \<open>Some u\<close> for
  \<open>require_id=True\<close>, \<open>u\<close> being the string \<open>str(uuid.uuid4())\<close> would return.
\<close>

function (sequential) format_template_field :: "externals \<Rightarrow> pyval list \<Rightarrow> fielddef \<Rightarrow> pyval \<Rightarrow> exn + pyval"
and format_items :: "externals \<Rightarrow> pyval list \<Rightarrow> fielddef \<Rightarrow> pyval list \<Rightarrow> exn + pyval list"
and format_fields ::
  "externals \<Rightarrow> pyval list \<Rightarrow> (string \<times> fielddef) list \<Rightarrow> (string \<times> pyval) list
     \<Rightarrow> exn + (string \<times> pyval) list"
and format_template_field_object ::
  "externals \<Rightarrow> pyval list \<Rightarrow> (string \<times> fielddef) list \<Rightarrow> pyval \<Rightarrow> string option \<Rightarrow> exn + pyval"
where
  "format_template_field P members (EnumField choices) v = Inr (format_enum choices v)"
| "format_template_field P members CvssField v = format_cvss P v"
| "format_template_field P members CweField v = format_cwe P v"
| "format_template_field P members UserField v = format_template_field_user P v members"
| "format_template_field P members (ListField items) v =
     (case py_iter v of
        Inl e \<Rightarrow> Inl e
      | Inr es \<Rightarrow>
          (case format_items P members items es of Inl e \<Rightarrow> Inl e | Inr out \<Rightarrow> Inr (VList out)))"
| "format_template_field P members (ObjectField flds) v =
     format_template_field_object P members flds v None"
| "format_template_field P members MarkdownField v = Inr v"
| "format_template_field P members OtherField v = Inr v"
| "format_items P members items [] = Inr []"
| "format_items P members items (e # es) =
     (case format_template_field P members items e of
        Inl x \<Rightarrow> Inl x
      | Inr y \<Rightarrow>
          (case format_items P members items es of Inl x \<Rightarrow> Inl x | Inr ys \<Rightarrow> Inr (y # ys)))"
| "format_fields P members [] out = Inr out"
| "format_fields P members (f # fs) out =
     (case format_template_field P members (snd f)
             (case map_of out (fst f) of None \<Rightarrow> VNone | Some x \<Rightarrow> x) of
        Inl e \<Rightarrow> Inl e
      | Inr y \<Rightarrow> format_fields P members fs (AList.update (fst f) y out))"
| "format_template_field_object P members flds v require_id =
     (case ensure_defined_structure P None v flds of
        Inl e \<Rightarrow> Inl e
      | Inr s \<Rightarrow>
          (case py_dict_or v s of
             Inl e \<Rightarrow> Inl e
           | Inr out0 \<Rightarrow>
               (case format_fields P members flds out0 of
                  Inl e \<Rightarrow> Inl e
                | Inr out \<Rightarrow>
                    (case require_id of
                       Some u \<Rightarrow>
                         (if map_of out ''id'' = None
                          then Inr (VDict (AList.update ''id'' (VStr u) out))
                          else Inr (VDict out))
                     | None \<Rightarrow> Inr (VDict out)))))"
  by pat_completeness auto

termination
  by (relation "inv_image (less_than <*lex*> less_than)
        (\<lambda>x. case x of
           Inl (Inl (P, ms, d, v)) \<Rightarrow> (2 * size d, 0)
         | Inl (Inr (P, ms, d, es)) \<Rightarrow> (2 * size d + 1, length es)
         | Inr (Inl (P, ms, fs, out)) \<Rightarrow> (2 * size (ObjectField fs) - 2, length fs)
         | Inr (Inr (P, ms, fs, v, r)) \<Rightarrow> (2 * size (ObjectField fs) - 1, 0))")
    auto

section \<open>Assembling the template data\<close>

record ProjectType =
  pt_id :: string
  pt_name :: string
  all_report_fields_obj :: "(string \<times> fielddef) list"
  finding_fields_obj :: "(string \<times> fielddef) list"

text \<open>A list comprehension whose body may raise: the first exception ends it.\<close>

fun map_exn :: "('a \<Rightarrow> exn + 'b) \<Rightarrow> 'a list \<Rightarrow> exn + 'b list" where
  "map_exn f [] = Inr []"
| "map_exn f (x # xs) =
     (case f x of
        Inl e \<Rightarrow> Inl e
      | Inr y \<Rightarrow> (case map_exn f xs of Inl e \<Rightarrow> Inl e | Inr ys \<Rightarrow> Inr (y # ys)))"

text \<open>\<open>data.get('pentesters', []) + (imported_members or [])\<close>: only two lists concatenate.\<close>

fun py_list_add :: "pyval \<Rightarrow> pyval list \<Rightarrow> exn + pyval list" where
  "py_list_add (VList xs) ys = Inr (xs @ ys)"
| "py_list_add _ ys = Inl TypeError"

text \<open>\<open>u.get(k, default)\<close> as a method call: only a mapping has it.\<close>

fun py_get_method :: "pyval \<Rightarrow> string \<Rightarrow> pyval \<Rightarrow> exn + pyval" where
  "py_get_method (VDict d) k dflt = Inr (case map_of d k of None \<Rightarrow> dflt | Some v \<Rightarrow> v)"
| "py_get_method _ k dflt = Inl AttributeError"

text \<open>\<open>'lead' in roles\<close>: membership in a list, key of a dictionary, substring of a string.\<close>

fun is_substring :: "string \<Rightarrow> string \<Rightarrow> bool" where
  "is_substring xs [] = (xs = [])"
| "is_substring xs (y # ys) = (take (length xs) (y # ys) = xs \<or> is_substring xs ys)"

fun py_contains :: "string \<Rightarrow> pyval \<Rightarrow> exn + bool" where
  "py_contains r (VList xs) = Inr (VStr r \<in> set xs)"
| "py_contains r (VDict d) = Inr (r \<in> fst ` set d)"
| "py_contains r (VStr s) = Inr (is_substring r s)"
| "py_contains r _ = Inl TypeError"

text \<open>The sort key of a member: the priority of its best role, then \<open>u.get('username')\<close>.\<close>

definition member_priority :: "pyval \<Rightarrow> exn + nat" where
  "member_priority u =
     bind_exn (py_get_method u ''roles'' (VList [])) (\<lambda>r0.
     bind_exn (py_contains ''lead'' r0) (\<lambda>is_lead.
       if is_lead then Inr 0
       else
         bind_exn (py_get_method u ''roles'' (VList [])) (\<lambda>r1.
         bind_exn (py_contains ''pentester'' r1) (\<lambda>is_pentester.
           if is_pentester then Inr 1
           else
             bind_exn (py_get_method u ''roles'' (VList [])) (\<lambda>r2.
             bind_exn (py_contains ''reviewer'' r2) (\<lambda>is_reviewer.
               if is_reviewer then Inr 2 else Inr 10))))))"

definition member_key :: "pyval \<Rightarrow> exn + (nat \<times> pyval)" where
  "member_key u =
     bind_exn (member_priority u) (\<lambda>p.
     bind_exn (py_get_method u ''username'' VNone) (\<lambda>n. Inr (p, n)))"

text \<open>
  \<open>sorted\<close> compares the keys with \<open><\<close> on tuples: the first components decide when they
  differ; otherwise the second ones are compared, and two equal ones (two \<open>None\<close>) make the
  tuples equal. A username is \<open>None\<close>, an integer or a string here; ordering \<open>None\<close> against
  anything else, or values of two different types, raises \<open>TypeError\<close>.
\<close>

fun key_lt :: "nat \<times> pyval \<Rightarrow> nat \<times> pyval \<Rightarrow> exn + bool" where
  "key_lt (p, a) (q, b) =
     (if p \<noteq> q then Inr (p < q)
      else if a = b then Inr False
      else
        (case (a, b) of
           (VInt i, VInt j) \<Rightarrow> Inr (i < j)
         | (VStr s, VStr t) \<Rightarrow> Inr (s < t)
         | _ \<Rightarrow> Inl TypeError))"

text \<open>A stable sort of keyed elements with that comparison (\<open>sorted\<close> is stable).\<close>

fun insort_keyed ::
  "(nat \<times> pyval) \<times> pyval \<Rightarrow> ((nat \<times> pyval) \<times> pyval) list \<Rightarrow> exn + ((nat \<times> pyval) \<times> pyval) list"
where
  "insort_keyed x [] = Inr [x]"
| "insort_keyed x (y # ys) =
     (case key_lt (fst y) (fst x) of
        Inl e \<Rightarrow> Inl e
      | Inr True \<Rightarrow> (case insort_keyed x ys of Inl e \<Rightarrow> Inl e | Inr zs \<Rightarrow> Inr (y # zs))
      | Inr False \<Rightarrow> Inr (x # y # ys))"

fun sort_keyed :: "((nat \<times> pyval) \<times> pyval) list \<Rightarrow> exn + ((nat \<times> pyval) \<times> pyval) list" where
  "sort_keyed [] = Inr []"
| "sort_keyed (x # xs) =
     (case sort_keyed xs of Inl e \<Rightarrow> Inl e | Inr ys \<Rightarrow> insort_keyed x ys)"

definition sorted_members :: "pyval list \<Rightarrow> exn + pyval list" where
  "sorted_members members =
     bind_exn (map_exn (\<lambda>u. bind_exn (member_key u) (\<lambda>k. Inr (k, u))) members) (\<lambda>keyed.
     bind_exn (sort_keyed keyed) (\<lambda>s. Inr (map snd s)))"

text \<open>One finding of the list comprehension; \<open>u\<close> is the identifier \<open>uuid4\<close> would draw.\<close>

definition format_finding ::
  "externals \<Rightarrow> ProjectType \<Rightarrow> pyval list \<Rightarrow> pyval \<times> string \<Rightarrow> exn + pyval" where
  "format_finding P project_type members fu =
     bind_exn
       (ensure_defined_structure P (Some FILL_DEFAULT) (fst fu) (finding_fields_obj project_type))
       (\<lambda>s.
         bind_exn (py_dict_or (case fst fu of VDict d \<Rightarrow> fst fu | _ \<Rightarrow> VDict []) s) (\<lambda>v.
           format_template_field_object P members (finding_fields_obj project_type) (VDict v)
             (Some (snd fu))))"

text \<open>
  \<open>format_template_data\<close>. \<open>data\<close> is the dictionary, \<open>imported_members\<close> the list (\<open>None\<close>
  is the empty list), \<open>uuids\<close> the identifiers \<open>uuid4\<close> would draw: \<open>uuids 0\<close> for the report,
  \<open>uuids (Suc i)\<close> for the \<open>i\<close>-th finding. The result is the updated \<open>data\<close>.
\<close>

definition format_template_data ::
  "externals \<Rightarrow> (string \<times> pyval) list \<Rightarrow> ProjectType \<Rightarrow> pyval list \<Rightarrow> bool \<Rightarrow> (nat \<Rightarrow> string)
     \<Rightarrow> exn + (string \<times> pyval) list" where
  "format_template_data P data project_type imported_members override_finding_order uuids =
     bind_exn
       (py_list_add (case map_of data ''pentesters'' of None \<Rightarrow> VList [] | Some x \<Rightarrow> x)
          imported_members)
       (\<lambda>us.
     bind_exn (map_exn (\<lambda>u. format_template_field_user P u imported_members) us) (\<lambda>members.
     bind_exn
       (ensure_defined_structure P (Some FILL_DEFAULT)
          (case map_of data ''report'' of None \<Rightarrow> VDict [] | Some x \<Rightarrow> x)
          (all_report_fields_obj project_type))
       (\<lambda>rv.
     bind_exn
       (format_template_field_object P members (all_report_fields_obj project_type) rv
          (Some (uuids 0)))
       (\<lambda>report.
     bind_exn (py_iter (case map_of data ''findings'' of None \<Rightarrow> VList [] | Some x \<Rightarrow> x)) (\<lambda>fs.
     bind_exn
       (map_exn (format_finding P project_type members)
          (zip fs (map (\<lambda>i. uuids (Suc i)) [0..<length fs])))
       (\<lambda>formatted.
     bind_exn (sort_findings P formatted override_finding_order) (\<lambda>findings.
     bind_exn (sorted_members members) (\<lambda>pentesters.
       Inr (AList.update ''pentesters'' (VList pentesters)
             (AList.update ''findings'' (VList findings)
               (AList.update ''report'' report data)))))))))))"

section \<open>Polling a queued task\<close>



datatype call_result = Returned "exn + pyval" | Raised exn | Pending

text \<open>What a run did: its result (\<open>Pending\<close> when the observations end while it still
  polls), the sleeps it asked for, in milliseconds, and the \<open>(terminate, wait)\<close> arguments of
  its calls of \<open>revoke\<close>.\<close>

record run =
  run_result :: call_result
  sleeps :: "nat list"
  revokes :: "(bool \<times> bool) list"






section \<open>The render stage result and \<open>render_pdf_task\<close>\<close>

datatype MessageLevel = ERROR | WARNING | INFO | DEBUG

datatype MessageLocationType = FINDING | SECTION | DESIGN | OTHER

record MessageLocationInfo =
  loc_type :: MessageLocationType
  loc_id :: "string option"
  loc_name :: "string option"

record ErrorMessage =
  level :: MessageLevel
  message :: string
  location :: "MessageLocationInfo option"

text \<open>
  Elapsed times are floats in the source. Their type is the parameter \<open>'f\<close> here, of which
  only the operations the code applies are used (\<open>0\<close>, \<open>+\<close>, \<open>-\<close>, \<open><\<close>) and no law of
  arithmetic: what is proved of the timings holds of floats as it stands, rounding included.
\<close>

record 'f RenderStageResult =
  pdf :: "string option"
  messages :: "ErrorMessage list"
  timings :: "(string \<times> 'f) list"
  other :: "(string \<times> pyval) list"

text \<open>Modelled from the spec: \<open>RenderStageResult.add_timing\<close> (render_utils) is not part of
  this module; it "records wall-clock duration of the enclosed work under \<open>stage_name\<close>".\<close>

definition add_timing :: "string \<Rightarrow> 'f \<Rightarrow> 'f RenderStageResult \<Rightarrow> 'f RenderStageResult" where
  "add_timing name elapsed res = res\<lparr>timings := AList.update name elapsed (timings res)\<rparr>"

text \<open>Modelled from the spec: the merge \<open>res |= other\<close> (render_utils) is not part of this
  module; it "combines messages (concatenate, preserving order), timings (overwrite by key),
  output bytes (other wins if present), aux data (shallow merge, other wins on conflict)".\<close>

definition merge_result ::
  "'f RenderStageResult \<Rightarrow> 'f RenderStageResult \<Rightarrow> 'f RenderStageResult" where
  "merge_result a b =
     \<lparr>pdf = (case pdf b of None \<Rightarrow> pdf a | Some x \<Rightarrow> Some x),
      messages = messages a @ messages b,
      timings = dict_or (timings a) (timings b),
      other = dict_or (other a) (other b)\<rparr>"

text \<open>
  A \<open>datetime\<close>: its microseconds since the epoch and whether it is offset-aware (it has a
  UTC offset; \<open>micros\<close> is then in UTC) or offset-naive. \<open>a - b\<close> is a \<open>timedelta\<close>, here
  its microseconds; an aware and a naive datetime do not subtract: \<open>TypeError\<close>.
\<close>

datatype datetime = Datetime (micros: int) (aware: bool)

definition datetime_sub :: "datetime \<Rightarrow> datetime \<Rightarrow> exn + int" where
  "datetime_sub a b = (if aware a = aware b then Inr (micros a - micros b) else Inl TypeError)"

text \<open>
  \<open>django.utils.dateparse.parse_datetime\<close>: a string that is not well formatted gives
  \<open>None\<close>, a well formatted one a datetime (aware when the string has an offset, naive
  otherwise) or \<open>ValueError\<close> when it is not a valid date; that is the parameter
  \<open>parse_iso\<close>. Anything but a string, \<open>None\<close> included, raises \<open>TypeError\<close>.
\<close>

definition parse_datetime ::
  "(string \<Rightarrow> exn + datetime option) \<Rightarrow> pyval \<Rightarrow> exn + datetime option" where
  "parse_datetime parse_iso v = (case v of VStr s \<Rightarrow> parse_iso s | _ \<Rightarrow> Inl TypeError)"

text \<open>
  What \<open>render_pdf_task\<close> meets: the exception with which \<open>await format_resources()\<close>
  ends, if any, and how long the block took; what \<open>timezone.now()\<close> reads just before
  submission (aware or naive, as the settings have it); what \<open>await _render_pdf_task_async(...)\<close>
  returns or raises and how long the \<open>task_total\<close> block took. With them, the float
  arithmetic of the interpreter: \<open>py_sum\<close> is the builtin \<open>sum\<close> on a list of floats, and
  \<open>total_seconds us\<close> is \<open>timedelta.total_seconds()\<close> of a difference of \<open>us\<close>
  microseconds.
\<close>

record 'f render_env =
  collect_raises :: "exn option"
  collect_elapsed :: 'f
  before_task_start :: datetime
  task_outcome :: "exn + 'f RenderStageResult"
  task_elapsed :: 'f
  parse_iso :: "string \<Rightarrow> exn + datetime option"
  py_sum :: "'f list \<Rightarrow> 'f"
  total_seconds :: "int \<Rightarrow> 'f"

text \<open>\<open>sum(res.timings.values())\<close>\<close>

definition sum_values :: "'f render_env \<Rightarrow> (string \<times> 'f) list \<Rightarrow> 'f" where
  "sum_values env d = py_sum env (map snd d)"

text \<open>\<open>max(0, x)\<close>: the builtin keeps its first argument unless the second is greater.\<close>

definition py_max0 :: "'f::{zero,ord} \<Rightarrow> 'f" where
  "py_max0 x = (if 0 < x then x else 0)"

text \<open>The result accumulated up to the submission: \<open>collect_data\<close> recorded, \<open>queue\<close> set
  to \<open>0.0\<close>. \<open>timings_in\<close> is the \<open>timings\<close> argument (\<open>None\<close> is the empty dictionary).\<close>

definition before_submission ::
  "('f::zero) render_env \<Rightarrow> (string \<times> 'f) list \<Rightarrow> 'f RenderStageResult" where
  "before_submission env timings_in =
     (let res = add_timing ''collect_data'' (collect_elapsed env)
                  \<lparr>pdf = None, messages = [], timings = timings_in, other = []\<rparr>
      in res\<lparr>timings := AList.update ''queue'' 0 (timings res)\<rparr>)"

text \<open>\<open>res |= res_pdf\<close>, after the \<open>task_total\<close> block has recorded its time.\<close>

definition after_submission ::
  "('f::zero) render_env \<Rightarrow> (string \<times> 'f) list \<Rightarrow> 'f RenderStageResult \<Rightarrow> 'f RenderStageResult"
where
  "after_submission env timings_in res_pdf =
     merge_result (add_timing ''task_total'' (task_elapsed env) (before_submission env timings_in))
       res_pdf"

definition stamp_location :: "ProjectType \<Rightarrow> ErrorMessage \<Rightarrow> ErrorMessage" where
  "stamp_location project_type m =
     (case location m of
        Some l \<Rightarrow> m
      | None \<Rightarrow>
          m\<lparr>location := Some \<lparr>loc_type = DESIGN, loc_id = Some (pt_id project_type),
                                 loc_name = Some (pt_name project_type)\<rparr>\<rparr>)"

definition render_pdf_task ::
  "('f::{zero,plus,minus,ord}) render_env \<Rightarrow> ProjectType \<Rightarrow> (string \<times> 'f) list
     \<Rightarrow> exn + 'f RenderStageResult" where
  "render_pdf_task env project_type timings_in =
     (case collect_raises env of
        Some e \<Rightarrow> Inl e
      | None \<Rightarrow>
          (let timing_before_task_total =
                 sum_values env (timings (before_submission env timings_in))
           in
             (case task_outcome env of
                Inl e \<Rightarrow> Inl e
              | Inr res_pdf \<Rightarrow>
                  (let res = after_submission env timings_in res_pdf;
                       popped = (case map_of (other res) ''task_start_time'' of
                                   None \<Rightarrow> VNone | Some x \<Rightarrow> x);
                       res1 = res\<lparr>other := AList.delete ''task_start_time'' (other res)\<rparr>
                   in
                     (case parse_datetime (parse_iso env) popped of
                        Inl e \<Rightarrow> Inl e
                      | Inr parsed \<Rightarrow>
                          (case (case parsed of
                                   None \<Rightarrow> Inr res1
                                 | Some task_start_time \<Rightarrow>
                                     (case datetime_sub task_start_time (before_task_start env) of
                                        Inl e \<Rightarrow> Inl e
                                      | Inr delta \<Rightarrow>
                                          Inr (res1\<lparr>timings :=
                                                 AList.update ''queue'' (total_seconds env delta)
                                                   (timings res1)\<rparr>))) of
                             Inl e \<Rightarrow> Inl e
                           | Inr res2 \<Rightarrow>
                               (case map_of (timings res2) ''task_total'' of
                                  None \<Rightarrow> Inl KeyError
                                | Some task_total \<Rightarrow>
                                    (let rest = AList.delete ''task_total'' (timings res2);
                                         res3 = res2\<lparr>timings :=
                                           AList.update ''other''
                                             (py_max0 (task_total + timing_before_task_total
                                                         - sum_values env rest))
                                             rest\<rparr>
                                     in Inr (res3\<lparr>messages :=
                                               map (stamp_location project_type)
                                                 (messages res3)\<rparr>)))))))))"

section \<open>Rendering markdown fields to HTML\<close>

text \<open>An element of the tree \<open>lxml.etree\<close> parses: its tag, attributes and children.\<close>

datatype html_node =
  Node (tag: string) (attrib: "(string \<times> string) list") (getchildren: "html_node list")

text \<open>
  The collaborators of \<open>format_output\<close>: \<open>etree_HTML\<close> is \<open>etree.HTML(res.pdf.decode())\<close>
  (\<open>None\<close> for a document without content), \<open>etree_tostring\<close> is
  \<open>etree.tostring(e, method="html", pretty_print=True).decode()\<close>, \<open>serializer_data\<close> is
  \<open>PentestProjectDetailSerializer(...).data\<close>, \<open>json_loads\<close> is \<open>json.loads\<close>, and
  \<open>set_value_at_path obj path value\<close> gives the content of \<open>obj\<close> after the call of
  \<open>set_value_at_path\<close> (customfields.utils), which updates it in place.
\<close>

record markdown_env =
  etree_HTML :: "string \<Rightarrow> exn + html_node option"
  etree_tostring :: "html_node \<Rightarrow> exn + string"
  serializer_data :: "exn + pyval"
  json_loads :: "string \<Rightarrow> exn + pyval"
  set_value_at_path :: "pyval \<Rightarrow> pyval \<Rightarrow> pyval \<Rightarrow> exn + pyval"

text \<open>Subscription by position, \<open>v[i]\<close>, and the slice \<open>v[i:]\<close>.\<close>

fun py_index :: "pyval \<Rightarrow> nat \<Rightarrow> exn + pyval" where
  "py_index (VList xs) i = (if i < length xs then Inr (xs ! i) else Inl IndexError)"
| "py_index (VStr s) i = (if i < length s then Inr (VStr [s ! i]) else Inl IndexError)"
| "py_index (VDict d) i = Inl KeyError"
| "py_index _ i = Inl TypeError"

fun py_slice_from :: "pyval \<Rightarrow> nat \<Rightarrow> exn + pyval" where
  "py_slice_from (VList xs) i = Inr (VList (drop i xs))"
| "py_slice_from (VStr s) i = Inr (VStr (drop i s))"
| "py_slice_from _ i = Inl TypeError"

text \<open>\<open>html_tree.getchildren()[1].getchildren()[0].getchildren()\<close>\<close>

definition rendered_md_nodes :: "html_node option \<Rightarrow> exn + html_node list" where
  "rendered_md_nodes html_tree =
     (case html_tree of
        None \<Rightarrow> Inl AttributeError
      | Some t \<Rightarrow>
          (case getchildren t of
             h # b # rest \<Rightarrow>
               (case getchildren b of [] \<Rightarrow> Inl IndexError | c # cs \<Rightarrow> Inr (getchildren c))
           | _ \<Rightarrow> Inl IndexError))"

text \<open>The iteration over \<open>rendered_md_nodes\<close>, updating \<open>markdown_fields\<close>.\<close>

fun extract_rendered ::
  "markdown_env \<Rightarrow> html_node list \<Rightarrow> (string \<times> pyval) list \<Rightarrow> exn + (string \<times> pyval) list" where
  "extract_rendered M [] markdown_fields = Inr markdown_fields"
| "extract_rendered M (mdf # rest) markdown_fields =
     (case map_of (attrib mdf) ''id'' of
        None \<Rightarrow> extract_rendered M rest markdown_fields
      | Some mdf_id \<Rightarrow>
          (if map_of markdown_fields mdf_id \<noteq> None
           then
             (case map_exn (etree_tostring M) (getchildren mdf) of
                Inl e \<Rightarrow> Inl e
              | Inr parts \<Rightarrow>
                  extract_rendered M rest
                    (AList.update mdf_id (VStr (concat parts)) markdown_fields))
           else extract_rendered M rest markdown_fields))"

text \<open>\<open>next(filter(lambda s: s['id'] == path[1], items))\<close>: the position of the first match;
  \<open>StopIteration\<close> when there is none.\<close>

fun find_item :: "pyval \<Rightarrow> pyval list \<Rightarrow> exn + nat" where
  "find_item path [] = Inl StopIteration"
| "find_item path (s # ss) =
     (case py_getitem s ''id'' of
        Inl e \<Rightarrow> Inl e
      | Inr i \<Rightarrow>
          (case py_index path 1 of
             Inl e \<Rightarrow> Inl e
           | Inr p1 \<Rightarrow>
               (if i = p1 then Inr 0
                else (case find_item path ss of Inl e \<Rightarrow> Inl e | Inr n \<Rightarrow> Inr (Suc n)))))"

text \<open>One branch of the splicing: find the section or finding, take its \<open>'data'\<close>, set the
  value at the rest of the path. The item found is part of \<open>result\<close>, so the update shows
  in \<open>result\<close>.\<close>

definition splice_into ::
  "markdown_env \<Rightarrow> string \<Rightarrow> pyval \<Rightarrow> pyval \<Rightarrow> pyval \<Rightarrow> exn + pyval" where
  "splice_into M collection path html result =
     bind_exn (py_getitem result collection) (\<lambda>items.
     bind_exn (py_iter items) (\<lambda>its.
     bind_exn (find_item path its) (\<lambda>n.
     bind_exn (py_getitem (its ! n) ''data'') (\<lambda>item_data.
     bind_exn (py_slice_from path 2) (\<lambda>sub.
     bind_exn (set_value_at_path M item_data sub html) (\<lambda>new_data.
       (case (result, items, its ! n) of
          (VDict r, VList xs, VDict item) \<Rightarrow>
            Inr (VDict (AList.update collection
                   (VList (xs[n := VDict (AList.update ''data'' new_data item)])) r))
        | _ \<Rightarrow> Inl TypeError)))))))"

text \<open>The iteration over \<open>markdown_fields.items()\<close>.\<close>

fun splice_all :: "markdown_env \<Rightarrow> (string \<times> pyval) list \<Rightarrow> pyval \<Rightarrow> exn + pyval" where
  "splice_all M [] result = Inr result"
| "splice_all M (kv # rest) result =
     (case json_loads M (fst kv) of
        Inl e \<Rightarrow> Inl e
      | Inr path \<Rightarrow>
          (case py_index path 0 of
             Inl e \<Rightarrow> Inl e
           | Inr p0 \<Rightarrow>
               (if p0 = VStr ''sections''
                then (case splice_into M ''sections'' path (snd kv) result of
                        Inl e \<Rightarrow> Inl e | Inr r \<Rightarrow> splice_all M rest r)
                else if p0 = VStr ''findings''
                then (case splice_into M ''findings'' path (snd kv) result of
                        Inl e \<Rightarrow> Inl e | Inr r \<Rightarrow> splice_all M rest r)
                else splice_all M rest result)))"

text \<open>What the call returns: a dictionary whose entries are of these kinds.\<close>

datatype 'f outval =
    OutPdf "string option"
  | OutMessages "ErrorMessage list"
  | OutTimings "(string \<times> 'f) list"
  | OutOther "(string \<times> pyval) list"
  | OutResult pyval

text \<open>Modelled from the spec: \<open>RenderStageResult.to_dict\<close> (render_utils) is not part of
  this module; it "produces a transport-safe structure" of the accumulator's four parts.\<close>

definition to_dict :: "'f RenderStageResult \<Rightarrow> (string \<times> 'f outval) list" where
  "to_dict res =
     [(''pdf'', OutPdf (pdf res)), (''messages'', OutMessages (messages res)),
      (''timings'', OutTimings (timings res)), (''other'', OutOther (other res))]"

text \<open>The local function \<open>format_output\<close>; \<open>html\<close> is \<open>res.pdf\<close>.\<close>

definition format_output ::
  "markdown_env \<Rightarrow> 'f RenderStageResult \<Rightarrow> string \<Rightarrow> (string \<times> pyval) list
     \<Rightarrow> exn + (string \<times> 'f outval) list" where
  "format_output M res html markdown_fields =
     bind_exn (etree_HTML M html) (\<lambda>html_tree.
     bind_exn (rendered_md_nodes html_tree) (\<lambda>nodes.
     bind_exn (extract_rendered M nodes markdown_fields) (\<lambda>rendered.
     bind_exn (serializer_data M) (\<lambda>result0.
     bind_exn (splice_all M rendered result0) (\<lambda>result.
       Inr [(''result'', OutResult result), (''messages'', OutMessages (messages res))])))))"

definition formatting_error :: ErrorMessage where
  "formatting_error =
     \<lparr>level = ERROR, message = ''Error while formatting output'', location = None\<rparr>"

text \<open>
  \<open>await sync_to_async(f)(...)\<close> runs \<open>f\<close> in a thread of the executor and hands its
  outcome to the awaiting coroutine through a future. A \<open>StopIteration\<close> raised by \<open>f\<close>
  cannot be set on the future: the await never completes. The outcome of an await is
  \<open>Some r\<close> when it completes with \<open>r\<close>, and \<open>None\<close> when it never does.
\<close>

definition sync_to_async :: "exn + 'a \<Rightarrow> (exn + 'a) option" where
  "sync_to_async r =
     (case r of Inl e \<Rightarrow> (if e = StopIteration then None else Some r) | Inr x \<Rightarrow> Some r)"

text \<open>
  \<open>render_project_markdown_fields_to_html\<close>. \<open>markdown_fields\<close> is the dictionary
  collected from the sections and the findings, \<open>project_data\<close> the data that
  \<open>format_project_template_data\<close> reads from the project before it awaits
  \<open>sync_to_async(format_template_data)\<close>; \<open>render_pdf_task\<close> is called without
  \<open>timings\<close>; \<open>format_output\<close> is awaited through \<open>sync_to_async\<close> inside the \<open>try\<close>.
  The result is \<open>None\<close> when the call never returns.
\<close>

definition render_project_markdown_fields_to_html ::
  "externals \<Rightarrow> ('f::{zero,plus,minus,ord}) render_env \<Rightarrow> markdown_env \<Rightarrow> (string \<times> pyval) list
     \<Rightarrow> ProjectType \<Rightarrow> pyval list \<Rightarrow> bool \<Rightarrow> (nat \<Rightarrow> string) \<Rightarrow> (string \<times> pyval) list
     \<Rightarrow> (exn + (string \<times> 'f outval) list) option" where
  "render_project_markdown_fields_to_html P env M project_data project_type imported_members
       override_finding_order uuids markdown_fields =
     (case sync_to_async
             (format_template_data P project_data project_type imported_members
                override_finding_order uuids) of
        None \<Rightarrow> None
      | Some (Inl e) \<Rightarrow> Some (Inl e)
      | Some (Inr data) \<Rightarrow>
          (case render_pdf_task env project_type [] of
             Inl e \<Rightarrow> Some (Inl e)
           | Inr res \<Rightarrow>
               (case pdf res of
                  None \<Rightarrow> Some (Inr (to_dict res))
                | Some html \<Rightarrow>
                    (if html = [] then Some (Inr (to_dict res))
                     else
                       (case sync_to_async (format_output M res html markdown_fields) of
                          None \<Rightarrow> None
                        | Some (Inr out) \<Rightarrow> Some (Inr out)
                        | Some (Inl e) \<Rightarrow>
                            (if is_Exception e
                             then Some (Inr (to_dict
                                    (res\<lparr>messages := messages res @ [formatting_error]\<rparr>)))
                             else Some (Inl e)))))))"

section \<open>Collaborators for the examples\<close>

text \<open>Modelled from the spec: \<open>ensure_defined_structure\<close> (customfields.utils) is not part of
  this module; it reconciles a raw value with the field definitions and fills what is missing
  ("fill missing with schema default"). Every default is taken to be \<open>None\<close>, and a value
  that is not a list becomes the empty list under a list definition.\<close>

fun fill_default :: "fielddef \<Rightarrow> pyval \<Rightarrow> pyval" where
  "fill_default (ListField d) v =
     (case v of VList es \<Rightarrow> VList (map (fill_default d) es) | _ \<Rightarrow> VList [])"
| "fill_default (ObjectField fs) v =
     VDict (map (\<lambda>f. (fst f, fill_default (snd f) (get_key_or_attr v (fst f) VNone))) fs)"
| "fill_default d v = v"

text \<open>An instance of the collaborators: the CVSS engine scores everything \<open>0.0\<close>, the CWE
  table has one entry, the user store is empty, findings keep their order, and a set is
  iterated in the order in which its elements were first added.\<close>

definition example_externals :: externals where
  "example_externals =
     \<lparr>ensure_defined_structure = (\<lambda>h v fs. Inr (fill_default (ObjectField fs) v)),
      calculate_metrics = (\<lambda>v. Inr (VDict [(''final'', VDict [(''score'', VInt 0)])])),
      score_str = (\<lambda>v. Inr (VStr ''0.0'')),
      level_from_score = (\<lambda>v. Inr (VStr ''info'')),
      level_number_from_score = (\<lambda>v. Inr (VInt 1)),
      cwe_definitions =
        [VDict [(''id'', VInt 79), (''name'', VStr ''Cross-site Scripting''),
                (''description'', VStr ''Improper neutralization of input'')]],
      user_store_get = (\<lambda>v. Inl DoesNotExist),
      sort_findings = (\<lambda>fs override. Inr fs),
      set_order = (\<lambda>xs. rev (remdups (rev xs))),
      str_other = (\<lambda>v. ''<object>'')\<rparr>"

definition example_project_type :: ProjectType where
  "example_project_type =
     \<lparr>pt_id = ''design-1'', pt_name = ''Demo design'',
      all_report_fields_obj = [(''title'', OtherField)],
      finding_fields_obj = [(''title'', OtherField), (''cwe'', CweField)]\<rparr>"

text \<open>A worker result and an environment of \<open>render_pdf_task\<close>: collecting the resources
  took 1 s, the clock (offset-aware) read 1 s just before submission, the task took 4 s in all,
  and the worker reports that it started at 1.5 s and rendered for 2 s. The timings are real
  numbers here; all the values that occur are halves of integers, on which float arithmetic is
  exact.\<close>

definition example_worker_result :: "real RenderStageResult" where
  "example_worker_result =
     \<lparr>pdf = Some ''%PDF'', messages = [], timings = [(''render'', 2)],
      other = [(''task_start_time'', VStr ''1970-01-01T00:00:01.500000+00:00'')]\<rparr>"

definition example_render_env :: "real render_env" where
  "example_render_env =
     \<lparr>collect_raises = None, collect_elapsed = 1, before_task_start = Datetime 1000000 True,
      task_outcome = Inr example_worker_result, task_elapsed = 4,
      parse_iso = (\<lambda>s. if s = ''1970-01-01T00:00:01.500000+00:00''
                        then Inr (Some (Datetime 1500000 True))
                        else if s = ''1970-01-01T00:00:01.500000''
                        then Inr (Some (Datetime 1500000 False))
                        else Inr None),
      py_sum = foldl (+) 0,
      total_seconds = (\<lambda>us. real_of_int us / 1000000)\<rparr>"

text \<open>Collaborators of \<open>format_output\<close>: the rendered document has a \<open>head\<close> and a
  \<open>body\<close> whose first child holds one block for the key \<open>k1\<close>; the serialized project has
  no section, so that splicing the block of \<open>k1\<close> finds nothing.\<close>

definition example_markdown_env :: markdown_env where
  "example_markdown_env =
     \<lparr>etree_HTML = (\<lambda>s. Inr (Some (Node ''html'' []
        [Node ''head'' [] [],
         Node ''body'' []
           [Node ''div'' [] [Node ''div'' [(''id'', ''k1'')] [Node ''p'' [] []]]]]))),
      etree_tostring = (\<lambda>n. Inr ''<p>text</p>''),
      serializer_data = Inr (VDict [(''sections'', VList []), (''findings'', VList [])]),
      json_loads = (\<lambda>s. Inr (VList [VStr ''sections'', VStr ''s1'', VStr ''summary''])),
      set_value_at_path = (\<lambda>obj path v. Inr obj)\<rparr>"

section \<open>Predicates of the properties\<close>

text \<open>A set holds each of its elements once: whatever the order of iteration, it lists the
  elements given, without repetition.\<close>

definition set_order_ok :: "externals \<Rightarrow> bool" where
  "set_order_ok P \<longleftrightarrow> (\<forall>xs. distinct (set_order P xs) \<and> set (set_order P xs) = set xs)"

text \<open>\<open>sort_findings\<close> orders the findings it is given: it returns no other finding.\<close>

definition sort_findings_ok :: "externals \<Rightarrow> bool" where
  "sort_findings_ok P \<longleftrightarrow> (\<forall>xs b ys. sort_findings P xs b = Inr ys \<longrightarrow> set ys \<subseteq> set xs)"

text \<open>The ids of the fields of an object are its keys in the data: they differ from each
  other, at every level of a definition.\<close>

fun distinct_ids :: "fielddef \<Rightarrow> bool" where
  "distinct_ids (ObjectField fs) = (distinct (map fst fs) \<and> (\<forall>f \<in> set fs. distinct_ids (snd f)))"
| "distinct_ids (ListField d) = distinct_ids d"
| "distinct_ids _ = True"

text \<open>A value has every key its definition declares, in all of its subtree.\<close>

fun complete :: "fielddef \<Rightarrow> pyval \<Rightarrow> bool" where
  "complete (ObjectField fs) v =
     (case v of
        VDict d \<Rightarrow>
          (\<forall>f \<in> set fs. case map_of d (fst f) of None \<Rightarrow> False | Some x \<Rightarrow> complete (snd f) x)
      | _ \<Rightarrow> False)"
| "complete (ListField d) v = (case v of VList es \<Rightarrow> (\<forall>e \<in> set es. complete d e) | _ \<Rightarrow> False)"
| "complete _ v = True"

text \<open>The collaborators of \<open>format_output\<close> raise subclasses of \<open>Exception\<close> only.\<close>

definition raise_only_Exceptions :: "markdown_env \<Rightarrow> bool" where
  "raise_only_Exceptions M \<longleftrightarrow>
     (\<forall>s e. etree_HTML M s = Inl e \<longrightarrow> is_Exception e)
     \<and> (\<forall>n e. etree_tostring M n = Inl e \<longrightarrow> is_Exception e)
     \<and> (\<forall>e. serializer_data M = Inl e \<longrightarrow> is_Exception e)
     \<and> (\<forall>s e. json_loads M s = Inl e \<longrightarrow> is_Exception e)
     \<and> (\<forall>obj path v e. set_value_at_path M obj path v = Inl e \<longrightarrow> is_Exception e)"

section \<open>Lemmas on the error monad and dictionaries\<close>

lemma bind_exn_Inr: "bind_exn m f = Inr y \<longleftrightarrow> (\<exists>x. m = Inr x \<and> f x = Inr y)"
  by (cases m) (simp_all add: bind_exn_def)

lemma bind_exn_simps [simp]: "bind_exn (Inl e) f = Inl e" "bind_exn (Inr x) f = f x"
  by (simp_all add: bind_exn_def)

lemma map_of_dict_or_single: "map_of (dict_or a [(k, v)]) k = Some v"
  by (simp add: dict_or_def update_conv')

section \<open>User references: the roles of a formatted record\<close>

lemma format_user_roles:
  assumes "format_user P u = Inr (VDict d)"
  shows "\<exists>rs0. py_iter (get_key_or_attr u ''roles'' (VList [])) = Inr rs0 \<and>
           map_of d ''roles'' = Some (VList (sort_key role_priority (set_order P (filter py_truthy rs0))))"
  using assms
  by (auto simp: format_user_def sorted_roles_def bind_exn_Inr Let_def map_of_dict_or_single
      split: if_splits)

lemma format_template_field_user_VDict:
  assumes "format_template_field_user P v members = Inr (VDict d)"
  shows "\<exists>u. format_user P u = Inr (VDict d)"
  using assms
  by (auto simp: format_template_field_user_def split: pyval.splits option.splits sum.splits if_splits)

lemma set_order_ok_example: "set_order_ok example_externals"
  by (simp add: set_order_ok_def example_externals_def)

text \<open>
  Claim C9. Whenever \<open>format_template_field_user\<close> returns a record, its \<open>roles\<close> entry
  is a list without duplicates and without falsy entries (no empty string, no \<open>None\<close>): it
  holds exactly the truthy roles of the record that was formatted, each once.
\<close>

theorem roles_distinct_and_truthy:
  assumes "set_order_ok P" and "format_template_field_user P v members = Inr (VDict d)"
  shows "\<exists>u rs0 rs. format_user P u = Inr (VDict d)
           \<and> py_iter (get_key_or_attr u ''roles'' (VList [])) = Inr rs0
           \<and> map_of d ''roles'' = Some (VList rs)
           \<and> distinct rs \<and> (\<forall>r \<in> set rs. py_truthy r) \<and> set rs = set (filter py_truthy rs0)"
proof -
  from assms(2) obtain u where u: "format_user P u = Inr (VDict d)"
    using format_template_field_user_VDict by blast
  then obtain rs0 where it: "py_iter (get_key_or_attr u ''roles'' (VList [])) = Inr rs0"
    and r: "map_of d ''roles'' =
              Some (VList (sort_key role_priority (set_order P (filter py_truthy rs0))))"
    using format_user_roles by blast
  let ?rs = "sort_key role_priority (set_order P (filter py_truthy rs0))"
  from assms(1) have d: "distinct (set_order P (filter py_truthy rs0))"
    and s: "set (set_order P (filter py_truthy rs0)) = set (filter py_truthy rs0)"
    by (simp_all add: set_order_ok_def)
  have "distinct ?rs" using d by simp
  moreover have "set ?rs = set (filter py_truthy rs0)" using s by simp
  moreover from this have "\<forall>r \<in> set ?rs. py_truthy r" by simp
  ultimately show ?thesis using u it r by blast
qed

theorem roles_distinct_and_truthy_witness:
  "set_order_ok example_externals
   \<and> format_template_field_user example_externals
       (VDict [(''id'', VStr ''u1''),
               (''roles'', VList [VStr ''pentester'', VStr [], VStr ''lead'', VStr ''pentester''])]) []
     = Inr (VDict [(''id'', VStr ''u1''), (''roles'', VList [VStr ''lead'', VStr ''pentester''])])
   \<and> (\<exists>rs. map_of [(''id'', VStr ''u1''), (''roles'', VList [VStr ''lead'', VStr ''pentester''])] ''roles''
             = Some (VList rs) \<and> distinct rs \<and> (\<forall>r \<in> set rs. py_truthy r))"
proof -
  have ok: "set_order_ok example_externals" by (rule set_order_ok_example)
  have run: "format_template_field_user example_externals
       (VDict [(''id'', VStr ''u1''),
               (''roles'', VList [VStr ''pentester'', VStr [], VStr ''lead'', VStr ''pentester''])]) []
     = Inr (VDict [(''id'', VStr ''u1''), (''roles'', VList [VStr ''lead'', VStr ''pentester''])])"
    by (simp add: format_template_field_user_def format_user_def sorted_roles_def
        example_externals_def contact_keys_def dict_or_def role_priority_def)
  from roles_distinct_and_truthy [OF ok run] have
    "\<exists>rs. map_of [(''id'', VStr ''u1''), (''roles'', VList [VStr ''lead'', VStr ''pentester''])] ''roles''
             = Some (VList rs) \<and> distinct rs \<and> (\<forall>r \<in> set rs. py_truthy r)"
    by blast
  with ok run show ?thesis by blast
qed

text \<open>
  Claim C3, as amended. Whenever \<open>format_template_field_user\<close> returns a record, its
  \<open>roles\<close> list is sorted by the priority lead = 0, pentester = 1, reviewer = 2, any other
  role = 10, and roles of equal priority stand in the order in which the set of the record's
  truthy roles is iterated (\<open>sorted\<close> is stable and its key is the priority alone).
\<close>

theorem roles_sorted_by_priority_stable:
  assumes "format_template_field_user P v members = Inr (VDict d)"
  shows "\<exists>u rs0 rs. format_user P u = Inr (VDict d)
           \<and> py_iter (get_key_or_attr u ''roles'' (VList [])) = Inr rs0
           \<and> map_of d ''roles'' = Some (VList rs)
           \<and> sorted (map role_priority rs)
           \<and> (\<forall>k. filter (\<lambda>r. role_priority r = k) rs
                   = filter (\<lambda>r. role_priority r = k) (set_order P (filter py_truthy rs0)))"
proof -
  from assms obtain u where u: "format_user P u = Inr (VDict d)"
    using format_template_field_user_VDict by blast
  then obtain rs0 where it: "py_iter (get_key_or_attr u ''roles'' (VList [])) = Inr rs0"
    and r: "map_of d ''roles'' =
              Some (VList (sort_key role_priority (set_order P (filter py_truthy rs0))))"
    using format_user_roles by blast
  let ?src = "set_order P (filter py_truthy rs0)"
  have "sorted (map role_priority (sort_key role_priority ?src))"
    by (rule sorted_sort_key)
  moreover have "\<forall>k. filter (\<lambda>r. role_priority r = k) (sort_key role_priority ?src)
                   = filter (\<lambda>r. role_priority r = k) ?src"
    by (simp add: sort_key_stable)
  ultimately show ?thesis using u it r by blast
qed

theorem roles_sorted_by_priority_stable_witness:
  "format_template_field_user example_externals
       (VDict [(''id'', VStr ''u1''),
               (''roles'', VList [VStr ''zeta'', VStr ''reviewer'', VStr ''alpha'', VStr ''lead''])]) []
     = Inr (VDict [(''id'', VStr ''u1''),
                   (''roles'', VList [VStr ''lead'', VStr ''reviewer'', VStr ''zeta'', VStr ''alpha''])])
   \<and> (\<exists>rs. map_of [(''id'', VStr ''u1''),
                   (''roles'', VList [VStr ''lead'', VStr ''reviewer'', VStr ''zeta'', VStr ''alpha''])]
               ''roles'' = Some (VList rs)
           \<and> sorted (map role_priority rs))"
proof -
  have run: "format_template_field_user example_externals
       (VDict [(''id'', VStr ''u1''),
               (''roles'', VList [VStr ''zeta'', VStr ''reviewer'', VStr ''alpha'', VStr ''lead''])]) []
     = Inr (VDict [(''id'', VStr ''u1''),
                   (''roles'', VList [VStr ''lead'', VStr ''reviewer'', VStr ''zeta'', VStr ''alpha''])])"
    by (simp add: format_template_field_user_def format_user_def sorted_roles_def
        example_externals_def contact_keys_def dict_or_def role_priority_def)
  from roles_sorted_by_priority_stable [OF run] have
    "\<exists>rs. map_of [(''id'', VStr ''u1''),
                   (''roles'', VList [VStr ''lead'', VStr ''reviewer'', VStr ''zeta'', VStr ''alpha''])]
               ''roles'' = Some (VList rs)
           \<and> sorted (map role_priority rs)"
    by blast
  with run show ?thesis by blast
qed

text \<open>
  Claim C3 as stated asks for lexicographic order among roles of equal priority. With a set
  iterated in the order of insertion, the roles \<open>zeta\<close> and \<open>alpha\<close> (both of priority 10)
  come out as \<open>zeta, alpha\<close>.
\<close>

theorem roles_ties_not_lexicographic:
  "format_template_field_user example_externals
       (VDict [(''id'', VStr ''u1''), (''roles'', VList [VStr ''zeta'', VStr ''alpha''])]) []
     = Inr (VDict [(''id'', VStr ''u1''), (''roles'', VList [VStr ''zeta'', VStr ''alpha''])])
   \<and> role_priority (VStr ''zeta'') = role_priority (VStr ''alpha'')
   \<and> ''alpha'' < ''zeta''"
  by (simp add: format_template_field_user_def format_user_def sorted_roles_def
      example_externals_def contact_keys_def dict_or_def role_priority_def)


section \<open>Resolution misses\<close>

lemma find_cwe_miss:
  assumes "\<forall>c \<in> set cs. \<exists>i. py_getitem c ''id'' = Inr i \<and> v \<noteq> VStr (''CWE-'' @ py_str P i)"
  shows "find_cwe P v cs = Inr (VDict [])"
  using assms by (induction cs) auto

text \<open>
  Claim C5. A resolution miss gives the sentinel, not an error: an enum value that matches no
  choice gives \<open>{value: '', label: ''}\<close>; a CWE value that matches no entry of the table
  gives \<open>{id: None, name: None, description: None, value: v}\<close>; a user id that matches
  no candidate member and that the user store does not know (\<open>DoesNotExist\<close>) or rejects
  (\<open>ValidationError\<close>) gives \<open>None\<close>.
\<close>

theorem resolution_misses_degrade:
  "((\<forall>c \<in> set choices. VStr (choice_value c) \<noteq> v) \<longrightarrow>
      format_template_field P members (EnumField choices) v
        = Inr (VDict [(''value'', VStr []), (''label'', VStr [])]))
   \<and> ((\<forall>c \<in> set (cwe_definitions P).
          \<exists>i. py_getitem c ''id'' = Inr i \<and> v \<noteq> VStr (''CWE-'' @ py_str P i)) \<longrightarrow>
      format_template_field P members CweField v
        = Inr (VDict [(''id'', VNone), (''name'', VNone), (''description'', VNone), (''value'', v)]))
   \<and> (find_member P (VStr s) members = None
        \<and> (user_store_get P (VStr s) = Inl DoesNotExist
            \<or> user_store_get P (VStr s) = Inl ValidationError) \<longrightarrow>
      format_template_field P members UserField (VStr s) = Inr VNone)"
proof (intro conjI impI)
  assume "\<forall>c \<in> set choices. VStr (choice_value c) \<noteq> v"
  then have "List.find (\<lambda>c. VStr (choice_value c) = v) choices = None"
    by (simp add: find_None_iff)
  then show "format_template_field P members (EnumField choices) v
        = Inr (VDict [(''value'', VStr []), (''label'', VStr [])])"
    by (simp add: format_enum_def)
next
  assume "\<forall>c \<in> set (cwe_definitions P).
          \<exists>i. py_getitem c ''id'' = Inr i \<and> v \<noteq> VStr (''CWE-'' @ py_str P i)"
  then have "find_cwe P v (cwe_definitions P) = Inr (VDict [])"
    by (rule find_cwe_miss)
  then show "format_template_field P members CweField v
        = Inr (VDict [(''id'', VNone), (''name'', VNone), (''description'', VNone), (''value'', v)])"
    by (simp add: format_cwe_def dict_or_def)
next
  assume "find_member P (VStr s) members = None
        \<and> (user_store_get P (VStr s) = Inl DoesNotExist
            \<or> user_store_get P (VStr s) = Inl ValidationError)"
  then show "format_template_field P members UserField (VStr s) = Inr VNone"
    by (auto simp: format_template_field_user_def)
qed

lemma string_of_int_79: "string_of_int 79 = ''79''"
  by code_simp

theorem resolution_misses_degrade_witness:
  "format_template_field example_externals [VDict [(''id'', VStr ''u1'')]]
       (EnumField [EnumChoice ''low'' ''Low'', EnumChoice ''high'' ''High'']) (VStr ''medium'')
     = Inr (VDict [(''value'', VStr []), (''label'', VStr [])])
   \<and> format_template_field example_externals [VDict [(''id'', VStr ''u1'')]] CweField (VStr ''CWE-80'')
     = Inr (VDict [(''id'', VNone), (''name'', VNone), (''description'', VNone),
                   (''value'', VStr ''CWE-80'')])
   \<and> format_template_field example_externals [VDict [(''id'', VStr ''u1'')]] UserField (VStr ''u9'')
     = Inr VNone"
proof -
  have enum: "\<forall>c \<in> set [EnumChoice ''low'' ''Low'', EnumChoice ''high'' ''High''].
                VStr (choice_value c) \<noteq> VStr ''medium''"
    by simp
  have cwe: "\<forall>c \<in> set (cwe_definitions example_externals).
          \<exists>i. py_getitem c ''id'' = Inr i
            \<and> VStr ''CWE-80'' \<noteq> VStr (''CWE-'' @ py_str example_externals i)"
    by (simp add: example_externals_def py_str_def string_of_int_79)
  have user: "find_member example_externals (VStr ''u9'') [VDict [(''id'', VStr ''u1'')]] = None
        \<and> (user_store_get example_externals (VStr ''u9'') = Inl DoesNotExist
            \<or> user_store_get example_externals (VStr ''u9'') = Inl ValidationError)"
    by (simp add: find_member_def py_str_def example_externals_def)
  show ?thesis
    using resolution_misses_degrade
      [of "[EnumChoice ''low'' ''Low'', EnumChoice ''high'' ''High'']" "VStr ''medium''"
          example_externals "[VDict [(''id'', VStr ''u1'')]]" ]
      resolution_misses_degrade
      [of _ "VStr ''CWE-80''" example_externals "[VDict [(''id'', VStr ''u1'')]]" "''u9''"]
      enum cwe user
    by blast
qed

section \<open>Objects: every declared field is present\<close>

lemma format_fields_keys:
  assumes "format_fields P members fs out = Inr out'"
  shows "\<forall>k. (k \<in> fst ` set fs \<or> map_of out k \<noteq> None) \<longrightarrow> map_of out' k \<noteq> None"
  using assms
proof (induction fs arbitrary: out)
  case Nil
  then show ?case by simp
next
  case (Cons f fs)
  then show ?case
    by (auto simp: update_conv' split: sum.splits)
qed

lemma format_template_field_object_keys:
  assumes "format_template_field_object P members fs v rid = Inr out"
  shows "\<exists>d. out = VDict d \<and> (\<forall>f \<in> set fs. map_of d (fst f) \<noteq> None)"
  using assms format_fields_keys[of P members fs]
  by (auto simp: update_conv' split: sum.splits option.splits if_splits) 

lemma format_complete:
  "\<forall>out. format_template_field P ms d v = Inr out \<longrightarrow> distinct_ids d \<longrightarrow> complete d out"
  "\<forall>outs. format_items P ms d' es = Inr outs \<longrightarrow> distinct_ids d' \<longrightarrow> (\<forall>x \<in> set outs. complete d' x)"
  "\<forall>out'. format_fields P ms fs out = Inr out' \<longrightarrow> distinct (map fst fs) \<longrightarrow>
      (\<forall>f \<in> set fs. distinct_ids (snd f)) \<longrightarrow>
      (\<forall>f \<in> set fs. \<exists>x. map_of out' (fst f) = Some x \<and> complete (snd f) x)
      \<and> (\<forall>k. k \<notin> fst ` set fs \<longrightarrow> map_of out' k = map_of out k)"
  "\<forall>out. format_template_field_object P ms fs' v' rid = Inr out \<longrightarrow>
      distinct_ids (ObjectField fs') \<longrightarrow> complete (ObjectField fs') out"
proof (induction P ms d v and P ms d' es and P ms fs out and P ms fs' v' rid
    rule: format_template_field_format_items_format_fields_format_template_field_object.induct)
  case (5 P members items v)
  then show ?case by (auto split: sum.splits)
next
  case (6 P members flds v)
  then show ?case by simp
next
  case (10 P members items e es)
  then show ?case by (auto split: sum.splits)
next
  case (12 P members f fs out)
  show ?case
  proof (intro allI impI)
    fix out'
    assume run: "format_fields P members (f # fs) out = Inr out'"
      and dis: "distinct (map fst (f # fs))"
      and ids: "\<forall>g \<in> set (f # fs). distinct_ids (snd g)"
    from run obtain y where
      y: "format_template_field P members (snd f)
            (case map_of out (fst f) of None \<Rightarrow> VNone | Some x \<Rightarrow> x) = Inr y"
      and rest: "format_fields P members fs (AList.update (fst f) y out) = Inr out'"
      by (auto split: sum.splits)
    from "12.IH"(1) y ids have cy: "complete (snd f) y" by simp
    from "12.IH"(2)[OF y] rest dis ids have
      a: "\<forall>g \<in> set fs. \<exists>x. map_of out' (fst g) = Some x \<and> complete (snd g) x"
      and b: "\<forall>k. k \<notin> fst ` set fs \<longrightarrow> map_of out' k = map_of (AList.update (fst f) y out) k"
      by simp_all
    from dis have "fst f \<notin> fst ` set fs" by simp
    with b have "map_of out' (fst f) = Some y" by (simp add: update_conv')
    with cy a have "\<forall>g \<in> set (f # fs). \<exists>x. map_of out' (fst g) = Some x \<and> complete (snd g) x"
      by simp
    moreover from b have "\<forall>k. k \<notin> fst ` set (f # fs) \<longrightarrow> map_of out' k = map_of out k"
      by (simp add: update_conv')
    ultimately show "(\<forall>g \<in> set (f # fs). \<exists>x. map_of out' (fst g) = Some x \<and> complete (snd g) x)
      \<and> (\<forall>k. k \<notin> fst ` set (f # fs) \<longrightarrow> map_of out' k = map_of out k)"
      by blast
  qed
next
  case (13 P members flds v require_id)
  show ?case
  proof (intro allI impI)
    fix out
    assume run: "format_template_field_object P members flds v require_id = Inr out"
      and ids: "distinct_ids (ObjectField flds)"
    from run obtain s out0 out1 where
      s: "ensure_defined_structure P None v flds = Inr s"
      and o0: "py_dict_or v s = Inr out0"
      and o1: "format_fields P members flds out0 = Inr out1"
      and out: "out = VDict out1 \<or> (map_of out1 ''id'' = None \<and> (\<exists>u. out = VDict (AList.update ''id'' (VStr u) out1)))"
      by (auto split: sum.splits option.splits if_splits)
    from "13.IH"[OF s o0] o1 ids have
      a: "\<forall>g \<in> set flds. \<exists>x. map_of out1 (fst g) = Some x \<and> complete (snd g) x"
      by simp
    from out show "complete (ObjectField flds) out"
    proof
      assume "out = VDict out1"
      with a show ?thesis by auto
    next
      assume h: "map_of out1 ''id'' = None \<and> (\<exists>u. out = VDict (AList.update ''id'' (VStr u) out1))"
      then obtain u where u: "out = VDict (AList.update ''id'' (VStr u) out1)" by blast
      have "\<forall>g \<in> set flds. fst g \<noteq> ''id''" using a h by auto
      with a u show ?thesis by (auto simp: update_conv')
    qed
  qed
qed simp_all

lemma map_exn_Inr:
  assumes "map_exn f xs = Inr ys"
  shows "\<forall>y \<in> set ys. \<exists>x \<in> set xs. f x = Inr y"
  using assms by (induction xs arbitrary: ys) (auto split: sum.splits)

lemma format_finding_complete:
  assumes "format_finding P pt members fu = Inr y"
    and "distinct_ids (ObjectField (finding_fields_obj pt))"
  shows "complete (ObjectField (finding_fields_obj pt)) y"
  using assms format_complete(4)
  unfolding format_finding_def bind_exn_Inr by blast

text \<open>
  Claim C2. Whatever the raw value, the dictionary \<open>format_template_field_object\<close> returns
  has an entry for every field of the definition, also for a key the raw value lacks; with
  field ids that differ from each other, this holds in the whole subtree. Hence in the data
  \<open>format_template_data\<close> returns, the report and every finding have all the keys their
  definitions declare, at every level.
\<close>

theorem default_fill_invariant:
  "(format_template_field_object P members fs v rid = Inr out \<longrightarrow>
      (\<exists>d. out = VDict d \<and> (\<forall>f \<in> set fs. map_of d (fst f) \<noteq> None)
           \<and> (distinct_ids (ObjectField fs) \<longrightarrow> complete (ObjectField fs) out)))
   \<and> (format_template_data P data pt imported override uuids = Inr data'
        \<and> sort_findings_ok P
        \<and> distinct_ids (ObjectField (all_report_fields_obj pt))
        \<and> distinct_ids (ObjectField (finding_fields_obj pt)) \<longrightarrow>
      (\<exists>report findings.
          map_of data' ''report'' = Some report
          \<and> complete (ObjectField (all_report_fields_obj pt)) report
          \<and> map_of data' ''findings'' = Some (VList findings)
          \<and> (\<forall>f \<in> set findings. complete (ObjectField (finding_fields_obj pt)) f)))"
proof (intro conjI impI)
  assume run: "format_template_field_object P members fs v rid = Inr out"
  from format_template_field_object_keys[OF run] obtain d where
    d: "out = VDict d" "\<forall>f \<in> set fs. map_of d (fst f) \<noteq> None" by blast
  moreover have "distinct_ids (ObjectField fs) \<longrightarrow> complete (ObjectField fs) out"
    using run format_complete(4) by blast
  ultimately show "\<exists>d. out = VDict d \<and> (\<forall>f \<in> set fs. map_of d (fst f) \<noteq> None)
           \<and> (distinct_ids (ObjectField fs) \<longrightarrow> complete (ObjectField fs) out)"
    by blast
next
  assume h: "format_template_data P data pt imported override uuids = Inr data'
        \<and> sort_findings_ok P
        \<and> distinct_ids (ObjectField (all_report_fields_obj pt))
        \<and> distinct_ids (ObjectField (finding_fields_obj pt))"
  then obtain members rv report fs formatted findings pentesters where
    rep: "format_template_field_object P members (all_report_fields_obj pt) rv (Some (uuids 0))
            = Inr report"
    and fmt: "map_exn (format_finding P pt members)
                (zip fs (map (\<lambda>i. uuids (Suc i)) [0..<length fs])) = Inr formatted"
    and srt: "sort_findings P formatted override = Inr findings"
    and res: "data' = AList.update ''pentesters'' (VList pentesters)
                (AList.update ''findings'' (VList findings)
                  (AList.update ''report'' report data))"
    unfolding format_template_data_def bind_exn_Inr by blast
  from h have ok: "sort_findings_ok P"
    and dr: "distinct_ids (ObjectField (all_report_fields_obj pt))"
    and df: "distinct_ids (ObjectField (finding_fields_obj pt))" by simp_all
  have c1: "complete (ObjectField (all_report_fields_obj pt)) report"
    using rep dr format_complete(4) by blast
  have "\<forall>y \<in> set formatted. complete (ObjectField (finding_fields_obj pt)) y"
    using map_exn_Inr[OF fmt] format_finding_complete df by blast
  moreover from ok srt have "set findings \<subseteq> set formatted"
    unfolding sort_findings_ok_def by blast
  ultimately have c2: "\<forall>f \<in> set findings. complete (ObjectField (finding_fields_obj pt)) f"
    by blast
  have "map_of data' ''report'' = Some report" "map_of data' ''findings'' = Some (VList findings)"
    using res by (simp_all add: update_conv')
  with c1 c2 show "\<exists>report findings.
          map_of data' ''report'' = Some report
          \<and> complete (ObjectField (all_report_fields_obj pt)) report
          \<and> map_of data' ''findings'' = Some (VList findings)
          \<and> (\<forall>f \<in> set findings. complete (ObjectField (finding_fields_obj pt)) f)"
    by blast
qed

lemma sort_findings_ok_example: "sort_findings_ok example_externals"
  by (simp add: sort_findings_ok_def example_externals_def)

theorem default_fill_invariant_witness:
  "format_template_field_object example_externals []
       [(''title'', OtherField), (''cwe'', CweField)] (VDict [(''summary'', VStr ''s'')]) None
     = Inr (VDict [(''summary'', VStr ''s''), (''title'', VNone),
                   (''cwe'', VDict [(''id'', VNone), (''name'', VNone), (''description'', VNone),
                                    (''value'', VNone)])])
   \<and> complete (ObjectField [(''title'', OtherField), (''cwe'', CweField)])
       (VDict [(''summary'', VStr ''s''), (''title'', VNone),
               (''cwe'', VDict [(''id'', VNone), (''name'', VNone), (''description'', VNone),
                                (''value'', VNone)])])
   \<and> format_template_data example_externals [(''findings'', VList [VDict [(''title'', VStr ''F'')]])]
       example_project_type [] False (\<lambda>i. ''uuid'')
     = Inr [(''findings'',
             VList [VDict [(''title'', VStr ''F''),
                           (''cwe'', VDict [(''id'', VNone), (''name'', VNone),
                                            (''description'', VNone), (''value'', VNone)]),
                           (''id'', VStr ''uuid'')]]),
            (''report'', VDict [(''title'', VNone), (''id'', VStr ''uuid'')]),
            (''pentesters'', VList [])]
   \<and> (\<exists>report findings.
          map_of [(''findings'',
                   VList [VDict [(''title'', VStr ''F''),
                                 (''cwe'', VDict [(''id'', VNone), (''name'', VNone),
                                                  (''description'', VNone), (''value'', VNone)]),
                                 (''id'', VStr ''uuid'')]]),
                  (''report'', VDict [(''title'', VNone), (''id'', VStr ''uuid'')]),
                  (''pentesters'', VList [])] ''report'' = Some report
          \<and> complete (ObjectField (all_report_fields_obj example_project_type)) report
          \<and> map_of [(''findings'',
                   VList [VDict [(''title'', VStr ''F''),
                                 (''cwe'', VDict [(''id'', VNone), (''name'', VNone),
                                                  (''description'', VNone), (''value'', VNone)]),
                                 (''id'', VStr ''uuid'')]]),
                  (''report'', VDict [(''title'', VNone), (''id'', VStr ''uuid'')]),
                  (''pentesters'', VList [])] ''findings'' = Some (VList findings)
          \<and> (\<forall>f \<in> set findings. complete (ObjectField (finding_fields_obj example_project_type)) f))"
proof -
  have obj: "format_template_field_object example_externals []
       [(''title'', OtherField), (''cwe'', CweField)] (VDict [(''summary'', VStr ''s'')]) None
     = Inr (VDict [(''summary'', VStr ''s''), (''title'', VNone),
                   (''cwe'', VDict [(''id'', VNone), (''name'', VNone), (''description'', VNone),
                                    (''value'', VNone)])])"
    by (simp add: example_externals_def format_cwe_def dict_or_def bind_exn_def)
  have ids: "distinct_ids (ObjectField [(''title'', OtherField), (''cwe'', CweField)])"
    by simp
  have data: "format_template_data example_externals
       [(''findings'', VList [VDict [(''title'', VStr ''F'')]])]
       example_project_type [] False (\<lambda>i. ''uuid'')
     = Inr [(''findings'',
             VList [VDict [(''title'', VStr ''F''),
                           (''cwe'', VDict [(''id'', VNone), (''name'', VNone),
                                            (''description'', VNone), (''value'', VNone)]),
                           (''id'', VStr ''uuid'')]]),
            (''report'', VDict [(''title'', VNone), (''id'', VStr ''uuid'')]),
            (''pentesters'', VList [])]"
    by (simp add: format_template_data_def format_finding_def sorted_members_def
        example_externals_def example_project_type_def format_cwe_def dict_or_def bind_exn_def)
  have pt: "distinct_ids (ObjectField (all_report_fields_obj example_project_type))"
    "distinct_ids (ObjectField (finding_fields_obj example_project_type))"
    by (simp_all add: example_project_type_def)
  have c: "complete (ObjectField [(''title'', OtherField), (''cwe'', CweField)])
       (VDict [(''summary'', VStr ''s''), (''title'', VNone),
               (''cwe'', VDict [(''id'', VNone), (''name'', VNone), (''description'', VNone),
                                (''value'', VNone)])])"
    using default_fill_invariant
         [of example_externals "[]" "[(''title'', OtherField), (''cwe'', CweField)]"
             "VDict [(''summary'', VStr ''s'')]" None] obj ids
    by blast
  have ex: "\<exists>report findings.
          map_of [(''findings'',
                   VList [VDict [(''title'', VStr ''F''),
                                 (''cwe'', VDict [(''id'', VNone), (''name'', VNone),
                                                  (''description'', VNone), (''value'', VNone)]),
                                 (''id'', VStr ''uuid'')]]),
                  (''report'', VDict [(''title'', VNone), (''id'', VStr ''uuid'')]),
                  (''pentesters'', VList [])] ''report'' = Some report
          \<and> complete (ObjectField (all_report_fields_obj example_project_type)) report
          \<and> map_of [(''findings'',
                   VList [VDict [(''title'', VStr ''F''),
                                 (''cwe'', VDict [(''id'', VNone), (''name'', VNone),
                                                  (''description'', VNone), (''value'', VNone)]),
                                 (''id'', VStr ''uuid'')]]),
                  (''report'', VDict [(''title'', VNone), (''id'', VStr ''uuid'')]),
                  (''pentesters'', VList [])] ''findings'' = Some (VList findings)
          \<and> (\<forall>f \<in> set findings. complete (ObjectField (finding_fields_obj example_project_type)) f)"
    using default_fill_invariant
         [of example_externals _ _ _ _ _
             "[(''findings'', VList [VDict [(''title'', VStr ''F'')]])]"
             example_project_type "[]" False "\<lambda>i. ''uuid''"] data pt sort_findings_ok_example
    by blast
  from obj c data ex show ?thesis by blast
qed

section \<open>When \<open>format_template_field\<close> returns and when it raises\<close>

lemma format_items_total:
  assumes "\<forall>e \<in> set es. \<exists>y. format_template_field P members d e = Inr y"
  shows "\<exists>outs. format_items P members d es = Inr outs \<and> length outs = length es"
  using assms
proof (induction es)
  case Nil
  then show ?case by simp
next
  case (Cons e es)
  then obtain y outs where "format_template_field P members d e = Inr y"
    and "format_items P members d es = Inr outs" and "length outs = length es"
    by auto
  then show ?case by simp
qed

lemma find_cwe_total:
  assumes "\<forall>c \<in> set cs. \<exists>i. py_getitem c ''id'' = Inr i"
  shows "\<exists>d. find_cwe P v cs = Inr (VDict d)"
  using assms
proof (induction cs)
  case Nil
  then show ?case by simp
next
  case (Cons c cs)
  then obtain i where i: "py_getitem c ''id'' = Inr i" by auto
  then obtain d where "c = VDict d" by (cases c) auto
  with Cons i show ?case by auto
qed

lemma py_dict_or_non_dict: "(\<forall>d. v \<noteq> VDict d) \<Longrightarrow> py_dict_or v s = Inl TypeError"
  by (cases v) auto

text \<open>
  Claim C1, as amended. \<open>format_template_field\<close> returns for every value under an enum,
  markdown or other scalar definition; under a CWE definition when every entry of the CWE table
  has an \<open>id\<close>; under a CVSS definition when the engine gives a metrics mapping with
  \<open>final.score\<close>; under a user definition for \<open>None\<close>, and for a string that matches no
  candidate when the user store finds the user or answers \<open>DoesNotExist\<close> or
  \<open>ValidationError\<close>. Under a list definition it returns a list of the same length when
  the value can be iterated and each element formats, and raises \<open>TypeError\<close> for \<open>None\<close>
  and for an integer. Under an object definition a value that is not a mapping raises.
\<close>

theorem format_template_field_returns:
  "(\<exists>out. format_template_field P members (EnumField choices) v = Inr out)
   \<and> format_template_field P members MarkdownField v = Inr v
   \<and> format_template_field P members OtherField v = Inr v
   \<and> ((\<forall>c \<in> set (cwe_definitions P). \<exists>i. py_getitem c ''id'' = Inr i) \<longrightarrow>
        (\<exists>out. format_template_field P members CweField v = Inr out))
   \<and> (calculate_metrics P v = Inr (VDict m) \<and> map_of m ''final'' = Some (VDict f)
        \<and> map_of f ''score'' = Some sc \<and> (\<exists>a. score_str P sc = Inr a)
        \<and> (\<exists>a. level_from_score P sc = Inr a)
        \<and> (\<exists>a. level_number_from_score P sc = Inr a) \<longrightarrow>
        (\<exists>out. format_template_field P members CvssField v = Inr out))
   \<and> format_template_field P members UserField VNone = Inr VNone
   \<and> (find_member P (VStr s) members = None
        \<and> (\<forall>e. user_store_get P (VStr s) = Inl e \<longrightarrow> e = DoesNotExist \<or> e = ValidationError)
        \<longrightarrow> (\<exists>out. format_template_field P members UserField (VStr s) = Inr out))
   \<and> (py_iter v = Inr es \<and> (\<forall>e \<in> set es. \<exists>y. format_template_field P members d e = Inr y) \<longrightarrow>
        (\<exists>outs. format_template_field P members (ListField d) v = Inr (VList outs)
                \<and> length outs = length es))
   \<and> (v = VNone \<or> (\<exists>i. v = VInt i) \<longrightarrow>
        format_template_field P members (ListField d) v = Inl TypeError)
   \<and> ((\<forall>a. v \<noteq> VDict a) \<longrightarrow>
        (\<exists>e. format_template_field P members (ObjectField flds) v = Inl e))"
proof (intro conjI impI)
  show "\<exists>out. format_template_field P members (EnumField choices) v = Inr out" by simp
  show "format_template_field P members MarkdownField v = Inr v" by simp
  show "format_template_field P members OtherField v = Inr v" by simp
  show "format_template_field P members UserField VNone = Inr VNone"
    by (simp add: format_template_field_user_def format_user_def)
next
  assume "\<forall>c \<in> set (cwe_definitions P). \<exists>i. py_getitem c ''id'' = Inr i"
  then obtain m where "find_cwe P v (cwe_definitions P) = Inr (VDict m)"
    using find_cwe_total by blast
  then show "\<exists>out. format_template_field P members CweField v = Inr out"
    by (simp add: format_cwe_def)
next
  assume "calculate_metrics P v = Inr (VDict m) \<and> map_of m ''final'' = Some (VDict f)
        \<and> map_of f ''score'' = Some sc \<and> (\<exists>a. score_str P sc = Inr a)
        \<and> (\<exists>a. level_from_score P sc = Inr a)
        \<and> (\<exists>a. level_number_from_score P sc = Inr a)"
  then show "\<exists>out. format_template_field P members CvssField v = Inr out"
    by (auto simp: format_cvss_def)
next
  assume h: "find_member P (VStr s) members = None
        \<and> (\<forall>e. user_store_get P (VStr s) = Inl e \<longrightarrow> e = DoesNotExist \<or> e = ValidationError)"
  show "\<exists>out. format_template_field P members UserField (VStr s) = Inr out"
  proof (cases "user_store_get P (VStr s)")
    case (Inl e)
    with h show ?thesis by (auto simp: format_template_field_user_def)
  next
    case (Inr usr)
    with h show ?thesis
      by (simp add: format_template_field_user_def format_user_def sorted_roles_def)
  qed
next
  assume "py_iter v = Inr es \<and> (\<forall>e \<in> set es. \<exists>y. format_template_field P members d e = Inr y)"
  then have it: "py_iter v = Inr es"
    and "\<exists>outs. format_items P members d es = Inr outs \<and> length outs = length es"
    using format_items_total by blast+
  then obtain outs where "format_items P members d es = Inr outs" "length outs = length es"
    by blast
  with it show "\<exists>outs. format_template_field P members (ListField d) v = Inr (VList outs)
                \<and> length outs = length es"
    by simp
next
  assume "v = VNone \<or> (\<exists>i. v = VInt i)"
  then show "format_template_field P members (ListField d) v = Inl TypeError" by auto
next
  assume "\<forall>a. v \<noteq> VDict a"
  then have "\<And>s. py_dict_or v s = Inl TypeError" by (rule py_dict_or_non_dict)
  then show "\<exists>e. format_template_field P members (ObjectField flds) v = Inl e"
    by (auto split: sum.splits)
qed

text \<open>
  Claim C1 as stated says that no value makes \<open>format_template_field\<close> raise. \<open>None\<close> or
  an integer under a list definition, and \<open>None\<close> under an object definition, raise
  \<open>TypeError\<close>.
\<close>

theorem format_template_field_raises:
  "format_template_field example_externals [] (ListField OtherField) VNone = Inl TypeError
   \<and> format_template_field example_externals [] (ListField OtherField) (VInt 7) = Inl TypeError
   \<and> format_template_field example_externals [] (ObjectField [(''title'', OtherField)]) VNone
       = Inl TypeError"
  by (simp add: example_externals_def)

theorem format_template_field_returns_witness:
  "(\<exists>out. format_template_field example_externals [] CweField (VStr ''CWE-79'') = Inr out)
   \<and> (\<exists>out. format_template_field example_externals [] CvssField (VStr ''n/a'') = Inr out)
   \<and> (\<exists>out. format_template_field example_externals [] UserField (VStr ''u9'') = Inr out)
   \<and> (\<exists>outs. format_template_field example_externals [] (ListField CweField)
                (VList [VStr ''CWE-79'', VNone]) = Inr (VList outs) \<and> length outs = 2)
   \<and> format_template_field example_externals [] (ListField CweField) VNone = Inl TypeError
   \<and> (\<exists>e. format_template_field example_externals [] (ObjectField [(''title'', OtherField)])
             (VList []) = Inl e)"
proof -
  have table: "\<forall>c \<in> set (cwe_definitions example_externals). \<exists>i. py_getitem c ''id'' = Inr i"
    by (simp add: example_externals_def)
  have cwe: "\<And>v. \<exists>out. format_template_field example_externals [] CweField v = Inr out"
    using format_template_field_returns [where P = example_externals and members = "[]"] table
    by blast
  have engine: "calculate_metrics example_externals (VStr ''n/a'')
        = Inr (VDict [(''final'', VDict [(''score'', VInt 0)])])
      \<and> map_of [(''final'', VDict [(''score'', VInt 0)])] ''final'' = Some (VDict [(''score'', VInt 0)])
      \<and> map_of [(''score'', VInt 0)] ''score'' = Some (VInt 0)
      \<and> (\<exists>a. score_str example_externals (VInt 0) = Inr a)
      \<and> (\<exists>a. level_from_score example_externals (VInt 0) = Inr a)
      \<and> (\<exists>a. level_number_from_score example_externals (VInt 0) = Inr a)"
    by (simp add: example_externals_def)
  have cvss: "\<exists>out. format_template_field example_externals [] CvssField (VStr ''n/a'') = Inr out"
    using format_template_field_returns
            [where P = example_externals and members = "[]" and v = "VStr ''n/a''"] engine
    by blast
  have store: "find_member example_externals (VStr ''u9'') [] = None
        \<and> (\<forall>e. user_store_get example_externals (VStr ''u9'') = Inl e
               \<longrightarrow> e = DoesNotExist \<or> e = ValidationError)"
    by (simp add: find_member_def example_externals_def)
  have user: "\<exists>out. format_template_field example_externals [] UserField (VStr ''u9'') = Inr out"
    using format_template_field_returns
            [where P = example_externals and members = "[]" and s = "''u9''"] store
    by blast
  have it: "py_iter (VList [VStr ''CWE-79'', VNone]) = Inr [VStr ''CWE-79'', VNone]" by simp
  have lst: "\<exists>outs. format_template_field example_externals [] (ListField CweField)
                (VList [VStr ''CWE-79'', VNone]) = Inr (VList outs)
              \<and> length outs = length [VStr ''CWE-79'', VNone]"
    using format_template_field_returns
            [where P = example_externals and members = "[]"
                and v = "VList [VStr ''CWE-79'', VNone]"
                and es = "[VStr ''CWE-79'', VNone]" and d = CweField] it cwe
    by blast
  have none: "format_template_field example_externals [] (ListField CweField) VNone = Inl TypeError"
    using format_template_field_returns
            [where P = example_externals and members = "[]" and v = VNone and d = CweField] by blast
  have obj: "\<exists>e. format_template_field example_externals [] (ObjectField [(''title'', OtherField)])
             (VList []) = Inl e"
    using format_template_field_returns
            [where P = example_externals and members = "[]" and v = "VList []"
                and flds = "[(''title'', OtherField)]"] by blast
  have len: "length [VStr ''CWE-79'', VNone] = 2" by simp
  from cwe cvss user lst [unfolded len] none obj show ?thesis by blast
qed

section \<open>The order of the member pool\<close>

text \<open>The sort key reads \<open>u.get('username')\<close>, but a formatted member has the contact keys
  and \<open>roles\<close> only: the second component of every key is \<open>None\<close>.\<close>

lemma map_of_copy_keys_other: "k \<notin> set ks \<Longrightarrow> map_of (copy_keys u ks) k = None"
  by (cases u) (auto simp: map_of_eq_None_iff image_iff)

lemma format_user_no_username:
  assumes "format_user P u = Inr (VDict d)"
  shows "map_of d ''username'' = None"
  using assms
  by (auto simp: format_user_def bind_exn_Inr dict_or_def update_conv' map_of_copy_keys_other
      contact_keys_def split: if_splits)

lemma formatted_member_no_username:
  assumes "format_template_field_user P v members = Inr (VDict d)"
  shows "py_get_method (VDict d) ''username'' VNone = Inr VNone"
  using format_template_field_user_VDict [OF assms] format_user_no_username by auto

text \<open>
  Claim C4 says that the member pool is sorted by role priority, then by the member's name.
  Here the lead comes first, as claimed, but the two pentesters \<open>Zoe\<close> (\<open>zoe\<close>) and
  \<open>Adam\<close> (\<open>adam\<close>) stay in the order of the input: the secondary key is \<open>None\<close> for both.
\<close>

theorem pentesters_keep_input_order_on_ties:
  "format_template_data example_externals
     [(''pentesters'',
       VList [VDict [(''id'', VStr ''u1''), (''username'', VStr ''zoe''), (''name'', VStr ''Zoe''),
                     (''roles'', VList [VStr ''pentester''])],
              VDict [(''id'', VStr ''u2''), (''username'', VStr ''adam''), (''name'', VStr ''Adam''),
                     (''roles'', VList [VStr ''pentester''])],
              VDict [(''id'', VStr ''u3''), (''username'', VStr ''lea''), (''name'', VStr ''Lea''),
                     (''roles'', VList [VStr ''lead''])]])]
     example_project_type [] False (\<lambda>i. ''uuid'')
   = Inr [(''pentesters'',
           VList [VDict [(''id'', VStr ''u3''), (''name'', VStr ''Lea''),
                         (''roles'', VList [VStr ''lead''])],
                  VDict [(''id'', VStr ''u1''), (''name'', VStr ''Zoe''),
                         (''roles'', VList [VStr ''pentester''])],
                  VDict [(''id'', VStr ''u2''), (''name'', VStr ''Adam''),
                         (''roles'', VList [VStr ''pentester''])]]),
          (''report'', VDict [(''title'', VNone), (''id'', VStr ''uuid'')]),
          (''findings'', VList [])]"
  by (simp add: format_template_data_def format_template_field_user_def format_user_def
      sorted_roles_def sorted_members_def member_key_def member_priority_def
      example_externals_def example_project_type_def contact_keys_def dict_or_def
      role_priority_def bind_exn_def)

section \<open>Polling: interval, timeout and cancellation\<close>






section \<open>The timings of \<open>render_pdf_task\<close>\<close>






text \<open>A start time without offset does not subtract from the offset-aware clock: the
  subtraction raises \<open>TypeError\<close> and no timings are returned.\<close>

lemma naive_start_time_raises:
  "render_pdf_task
       (example_render_env\<lparr>task_outcome :=
          Inr (example_worker_result\<lparr>other :=
                 [(''task_start_time'', VStr ''1970-01-01T00:00:01.500000'')]\<rparr>)\<rparr>)
       example_project_type []
     = Inl TypeError"
  by (simp add: render_pdf_task_def after_submission_def merge_result_def add_timing_def
      before_submission_def dict_or_def example_worker_result_def example_render_env_def
      parse_datetime_def sum_values_def datetime_sub_def)

text \<open>
  Claim C10 says that without a parseable \<open>task_start_time\<close> the \<open>queue\<close> entry stays
  \<open>0.0\<close> and nothing raises. With an entry that does not parse (\<open>'soon'\<close>) this is so, and the
  key is removed. With no entry at all, \<open>pop\<close> gives \<open>None\<close> and
  \<open>parse_datetime(None)\<close> raises \<open>TypeError\<close>.
\<close>

theorem missing_start_time_raises:
  "render_pdf_task
       (example_render_env\<lparr>task_outcome := Inr (example_worker_result\<lparr>other := []\<rparr>)\<rparr>)
       example_project_type []
     = Inl TypeError
   \<and> render_pdf_task
       (example_render_env\<lparr>task_outcome :=
          Inr (example_worker_result\<lparr>other := [(''task_start_time'', VStr ''soon'')]\<rparr>)\<rparr>)
       example_project_type []
     = Inr \<lparr>pdf = Some ''%PDF'', messages = [],
            timings = [(''collect_data'', 1), (''queue'', 0), (''render'', 2), (''other'', 2)],
            other = []\<rparr>"
  by (simp add: render_pdf_task_def after_submission_def merge_result_def add_timing_def
      before_submission_def dict_or_def example_worker_result_def example_render_env_def
      parse_datetime_def sum_values_def py_max0_def)

text \<open>Everything \<open>format_output\<close> raises by itself is a subclass of \<open>Exception\<close>; so is
  all it raises when its collaborators raise nothing else.\<close>

section \<open>Rendering markdown fields: what is caught and what is not\<close>

text \<open>Everything \<open>format_output\<close> raises by itself is a subclass of \<open>Exception\<close>; so is
  all it raises when its collaborators raise nothing else.\<close>

lemma bind_exn_Inl: "bind_exn m f = Inl e \<longleftrightarrow> m = Inl e \<or> (\<exists>x. m = Inr x \<and> f x = Inl e)"
  by (cases m) (simp_all add: bind_exn_def)

lemma py_getitem_raises: "py_getitem v k = Inl e \<Longrightarrow> is_Exception e"
  by (cases v) (auto split: option.splits)

lemma py_index_raises: "py_index v i = Inl e \<Longrightarrow> is_Exception e"
  by (cases v) (auto split: if_splits)

lemma py_slice_from_raises: "py_slice_from v i = Inl e \<Longrightarrow> is_Exception e"
  by (cases v) auto

lemma py_iter_raises: "py_iter v = Inl e \<Longrightarrow> is_Exception e"
  by (cases v) auto

lemma map_exn_Inl:
  assumes "map_exn f xs = Inl e"
  shows "\<exists>x. f x = Inl e"
  using assms by (induction xs) (auto split: sum.splits)

lemma rendered_md_nodes_raises: "rendered_md_nodes t = Inl e \<Longrightarrow> is_Exception e"
  by (auto simp: rendered_md_nodes_def split: option.splits list.splits)

lemma extract_rendered_raises:
  assumes "raise_only_Exceptions M" and "extract_rendered M nodes mf = Inl e"
  shows "is_Exception e"
  using assms(2)
proof (induction nodes arbitrary: mf)
  case Nil
  then show ?case by simp
next
  case (Cons n nodes)
  from assms(1) have ts: "\<And>x e. etree_tostring M x = Inl e \<Longrightarrow> is_Exception e"
    by (simp add: raise_only_Exceptions_def)
  from Cons show ?case
    by (auto split: option.splits if_splits sum.splits dest: map_exn_Inl ts)
qed

lemma find_item_raises: "find_item path ss = Inl e \<Longrightarrow> is_Exception e"
  by (induction ss arbitrary: e)
     (auto split: sum.splits if_splits dest: py_getitem_raises py_index_raises)

lemma splice_into_raises:
  assumes "raise_only_Exceptions M" and "splice_into M coll path html result = Inl e"
  shows "is_Exception e"
proof -
  from assms(1) have sv: "\<And>a b c e. set_value_at_path M a b c = Inl e \<Longrightarrow> is_Exception e"
    by (simp add: raise_only_Exceptions_def)
  have wb: "\<And>items x new_data e.
      (case (result, items, x) of
         (VDict r, VList xs, VDict item) \<Rightarrow>
           Inr (VDict (AList.update coll
                  (VList (xs[n := VDict (AList.update ''data'' new_data item)])) r))
       | _ \<Rightarrow> Inl TypeError) = Inl e \<Longrightarrow> is_Exception e" for n
    by (auto split: pyval.splits)
  from assms(2) show ?thesis
    unfolding splice_into_def bind_exn_Inl
    by (elim disjE exE conjE)
       (blast dest: py_getitem_raises py_iter_raises find_item_raises py_slice_from_raises sv wb)+
qed

lemma splice_all_raises:
  assumes "raise_only_Exceptions M" and "splice_all M kvs result = Inl e"
  shows "is_Exception e"
  using assms(2)
proof (induction kvs arbitrary: result)
  case Nil
  then show ?case by simp
next
  case (Cons kv kvs)
  from assms(1) have jl: "\<And>s e. json_loads M s = Inl e \<Longrightarrow> is_Exception e"
    by (simp add: raise_only_Exceptions_def)
  from Cons show ?case
    by (auto split: sum.splits if_splits
        dest: jl py_index_raises splice_into_raises [OF assms(1)])
qed

lemma format_output_raises:
  assumes "raise_only_Exceptions M" and "format_output M res html mf = Inl e"
  shows "is_Exception e"
proof -
  from assms(1) have eh: "\<And>s e. etree_HTML M s = Inl e \<Longrightarrow> is_Exception e"
    and sd: "\<And>e. serializer_data M = Inl e \<Longrightarrow> is_Exception e"
    by (simp_all add: raise_only_Exceptions_def)
  from assms(2) show ?thesis
    unfolding format_output_def bind_exn_Inl
    by (auto dest: eh sd rendered_md_nodes_raises extract_rendered_raises [OF assms(1)]
        splice_all_raises [OF assms(1)])
qed

lemma sync_to_async_Inr [simp]: "sync_to_async (Inr x) = Some (Inr x)"
  by (simp add: sync_to_async_def)

lemma sync_to_async_Inl:
  "sync_to_async (Inl e) = (if e = StopIteration then None else Some (Inl e))"
  by (simp add: sync_to_async_def)

text \<open>
  Claim C7, as amended. Once the template data is assembled: an exception of the render call
  (step 3) reaches the caller; a render without output returns the messages of the result,
  without \<open>result\<close>; and with output, whatever the parsing, the serialization and the
  splicing (steps 4 and 5) raise within \<open>Exception\<close>, \<open>StopIteration\<close> apart, is caught:
  the call returns, and when \<open>format_output\<close> failed it returns the result's dictionary with
  the error message \<open>Error while formatting output\<close> appended to the messages and no
  \<open>result\<close> entry.
\<close>

theorem markdown_rendering_outcomes:
  assumes "format_template_data P project_data project_type imported_members
             override_finding_order uuids = Inr data"
  shows "(render_pdf_task env project_type [] = Inl e \<longrightarrow>
            render_project_markdown_fields_to_html P env M project_data project_type
              imported_members override_finding_order uuids markdown_fields = Some (Inl e))
         \<and> (render_pdf_task env project_type [] = Inr res \<and> (pdf res = None \<or> pdf res = Some [])
              \<longrightarrow>
            render_project_markdown_fields_to_html P env M project_data project_type
              imported_members override_finding_order uuids markdown_fields
              = Some (Inr (to_dict res)))
         \<and> (render_pdf_task env project_type [] = Inr res \<and> pdf res = Some html \<and> html \<noteq> []
              \<and> raise_only_Exceptions M
              \<and> format_output M res html markdown_fields \<noteq> Inl StopIteration \<longrightarrow>
            (\<exists>out. render_project_markdown_fields_to_html P env M project_data project_type
                      imported_members override_finding_order uuids markdown_fields
                      = Some (Inr out)
                  \<and> ((\<exists>x. format_output M res html markdown_fields = Inl x) \<longrightarrow>
                        out = to_dict (res\<lparr>messages := messages res @ [formatting_error]\<rparr>)
                        \<and> map_of out ''result'' = None
                        \<and> map_of out ''messages''
                            = Some (OutMessages (messages res @ [formatting_error])))))"
proof (intro conjI impI)
  assume "render_pdf_task env project_type [] = Inl e"
  with assms show "render_project_markdown_fields_to_html P env M project_data project_type
              imported_members override_finding_order uuids markdown_fields = Some (Inl e)"
    by (simp add: render_project_markdown_fields_to_html_def)
next
  assume "render_pdf_task env project_type [] = Inr res \<and> (pdf res = None \<or> pdf res = Some [])"
  with assms show "render_project_markdown_fields_to_html P env M project_data project_type
              imported_members override_finding_order uuids markdown_fields
              = Some (Inr (to_dict res))"
    by (auto simp: render_project_markdown_fields_to_html_def)
next
  assume h: "render_pdf_task env project_type [] = Inr res \<and> pdf res = Some html \<and> html \<noteq> []
              \<and> raise_only_Exceptions M
              \<and> format_output M res html markdown_fields \<noteq> Inl StopIteration"
  let ?call = "render_project_markdown_fields_to_html P env M project_data project_type
                 imported_members override_finding_order uuids markdown_fields"
  let ?failed = "to_dict (res\<lparr>messages := messages res @ [formatting_error]\<rparr>)"
  show "\<exists>out. ?call = Some (Inr out)
          \<and> ((\<exists>x. format_output M res html markdown_fields = Inl x) \<longrightarrow>
                out = ?failed \<and> map_of out ''result'' = None
                \<and> map_of out ''messages'' = Some (OutMessages (messages res @ [formatting_error])))"
  proof (cases "format_output M res html markdown_fields")
    case (Inl x)
    with h have ex: "is_Exception x" using format_output_raises by blast
    from h Inl have ns: "x \<noteq> StopIteration" by simp
    from assms h Inl ex ns have "?call = Some (Inr ?failed)"
      by (simp add: render_project_markdown_fields_to_html_def sync_to_async_Inl)
    moreover have "map_of ?failed ''result'' = None"
      "map_of ?failed ''messages'' = Some (OutMessages (messages res @ [formatting_error]))"
      by (simp_all add: to_dict_def)
    ultimately show ?thesis by blast
  next
    case (Inr out)
    with assms h have "?call = Some (Inr out)"
      by (simp add: render_project_markdown_fields_to_html_def)
    with Inr show ?thesis by simp
  qed
qed

text \<open>
  Claim C7 as stated covers steps 3 to 5. The render call of step 3 stands before the
  \<open>try\<close>: when it raises, here \<open>TimeoutError\<close>, the exception reaches the caller.
\<close>

theorem render_failure_propagates:
  "render_project_markdown_fields_to_html example_externals
       (example_render_env\<lparr>task_outcome := Inl TimeoutError\<rparr>) example_markdown_env []
       example_project_type [] False (\<lambda>i. ''uuid'') [(''k1'', VStr ''**bold**'')]
     = Some (Inl TimeoutError)"
  by (simp add: render_project_markdown_fields_to_html_def format_template_data_def
      sorted_members_def render_pdf_task_def example_externals_def example_project_type_def
      example_render_env_def bind_exn_def dict_or_def)

theorem markdown_rendering_outcomes_witness:
  "raise_only_Exceptions (example_markdown_env\<lparr>etree_HTML :=
       (\<lambda>s. Inr (Some (Node ''html'' [] [Node ''head'' [] [], Node ''body'' [] []])))\<rparr>)
   \<and> format_output (example_markdown_env\<lparr>etree_HTML :=
         (\<lambda>s. Inr (Some (Node ''html'' [] [Node ''head'' [] [], Node ''body'' [] []])))\<rparr>)
       \<lparr>pdf = Some ''%PDF'', messages = [],
        timings = [(''collect_data'', 1), (''queue'', 1 / 2), (''render'', 2),
                   (''other'', (3::real) / 2)],
        other = []\<rparr>
       ''%PDF'' [(''k1'', VStr ''**bold**'')] = Inl IndexError
   \<and> render_project_markdown_fields_to_html example_externals example_render_env
       (example_markdown_env\<lparr>etree_HTML :=
         (\<lambda>s. Inr (Some (Node ''html'' [] [Node ''head'' [] [], Node ''body'' [] []])))\<rparr>)
       [] example_project_type [] False (\<lambda>i. ''uuid'')
       [(''k1'', VStr ''**bold**'')]
     = Some (Inr [(''pdf'', OutPdf (Some ''%PDF'')),
            (''messages'',
             OutMessages [\<lparr>level = ERROR, message = ''Error while formatting output'',
                            location = None\<rparr>]),
            (''timings'',
             OutTimings [(''collect_data'', 1), (''queue'', 1 / 2), (''render'', 2),
                         (''other'', 3 / 2)]),
            (''other'', OutOther [])])"
proof -
  let ?M = "example_markdown_env\<lparr>etree_HTML :=
         (\<lambda>s. Inr (Some (Node ''html'' [] [Node ''head'' [] [], Node ''body'' [] []])))\<rparr>"
  let ?res = "\<lparr>pdf = Some ''%PDF'', messages = [],
        timings = [(''collect_data'', 1), (''queue'', 1 / 2), (''render'', 2),
                   (''other'', (3::real) / 2)],
        other = []\<rparr>"
  have ok: "raise_only_Exceptions ?M"
    by (simp add: raise_only_Exceptions_def example_markdown_env_def)
  have data: "format_template_data example_externals [] example_project_type [] False
                (\<lambda>i. ''uuid'')
              = Inr [(''report'', VDict [(''title'', VNone), (''id'', VStr ''uuid'')]),
                     (''findings'', VList []), (''pentesters'', VList [])]"
    by (simp add: format_template_data_def sorted_members_def example_externals_def
        example_project_type_def bind_exn_def dict_or_def)
  have render: "render_pdf_task example_render_env example_project_type [] = Inr ?res"
    by (simp add: render_pdf_task_def after_submission_def merge_result_def add_timing_def
        before_submission_def dict_or_def example_worker_result_def example_render_env_def
        parse_datetime_def sum_values_def datetime_sub_def py_max0_def)
  have fails: "format_output ?M ?res ''%PDF'' [(''k1'', VStr ''**bold**'')] = Inl IndexError"
    by (simp add: format_output_def rendered_md_nodes_def example_markdown_env_def bind_exn_def)
  have h: "render_pdf_task example_render_env example_project_type [] = Inr ?res
           \<and> pdf ?res = Some ''%PDF'' \<and> ''%PDF'' \<noteq> []
           \<and> raise_only_Exceptions ?M
           \<and> format_output ?M ?res ''%PDF'' [(''k1'', VStr ''**bold**'')] \<noteq> Inl StopIteration"
    using render ok fails by simp
  from markdown_rendering_outcomes
         [OF data, where env = example_render_env and res = "?res" and html = "''%PDF''"
            and M = "?M" and markdown_fields = "[(''k1'', VStr ''**bold**'')]"]
       h fails
  have "render_project_markdown_fields_to_html example_externals example_render_env
          ?M [] example_project_type [] False (\<lambda>i. ''uuid'')
          [(''k1'', VStr ''**bold**'')]
        = Some (Inr (to_dict (?res\<lparr>messages := messages ?res @ [formatting_error]\<rparr>)))"
    by blast
  then have "render_project_markdown_fields_to_html example_externals example_render_env
       ?M [] example_project_type [] False (\<lambda>i. ''uuid'')
       [(''k1'', VStr ''**bold**'')]
     = Some (Inr [(''pdf'', OutPdf (Some ''%PDF'')),
            (''messages'',
             OutMessages [\<lparr>level = ERROR, message = ''Error while formatting output'',
                            location = None\<rparr>]),
            (''timings'',
             OutTimings [(''collect_data'', 1), (''queue'', 1 / 2), (''render'', 2),
                         (''other'', 3 / 2)]),
            (''other'', OutOther [])])"
    by (simp add: to_dict_def formatting_error_def)
  with ok fails show ?thesis by blast
qed

text \<open>The case set apart: when no section has the id of the path, \<open>next(filter(...))\<close>
  raises \<open>StopIteration\<close> in the thread of \<open>sync_to_async\<close>; it is neither caught nor
  raised to the caller, and the call does not return.\<close>

lemma stop_iteration_never_returns:
  "format_output example_markdown_env
       \<lparr>pdf = Some ''%PDF'', messages = [],
        timings = [(''collect_data'', 1), (''queue'', 1 / 2), (''render'', 2),
                   (''other'', (3::real) / 2)],
        other = []\<rparr>
       ''%PDF'' [(''k1'', VStr ''**bold**'')] = Inl StopIteration
   \<and> render_project_markdown_fields_to_html example_externals example_render_env
       example_markdown_env [] example_project_type [] False (\<lambda>i. ''uuid'')
       [(''k1'', VStr ''**bold**'')] = None"
  by (simp add: render_project_markdown_fields_to_html_def format_template_data_def
      sorted_members_def example_externals_def example_project_type_def bind_exn_def dict_or_def
      render_pdf_task_def after_submission_def merge_result_def add_timing_def
      before_submission_def example_worker_result_def example_render_env_def
      parse_datetime_def sum_values_def datetime_sub_def py_max0_def
      format_output_def rendered_md_nodes_def splice_into_def example_markdown_env_def
      sync_to_async_def)

end
